theory Spec2Isabelle
  imports Main "HOL-Library.Sublist"
begin

section \<open>Strings\<close>

text \<open>
  A JavaScript string is modelled as a \<^typ>\<open>string\<close>: a list of characters, each read as a
  code unit in the range U+0000 .. U+00FF.  Code units above U+00FF are outside the model.
\<close>

definition code :: "char \<Rightarrow> nat" where
  "code c = of_char c"

text \<open>\<^verbatim>\<open>String.prototype.trim\<close>: the WhiteSpace and LineTerminator code points below U+0100
  are TAB, LF, VT, FF, CR, SPACE and NBSP.\<close>

definition is_ws :: "char \<Rightarrow> bool" where
  "is_ws c = (code c \<in> {9, 10, 11, 12, 13, 32, 160})"

definition trim_end :: "string \<Rightarrow> string" where
  "trim_end s = rev (dropWhile is_ws (rev s))"

definition trim :: "string \<Rightarrow> string" where
  "trim s = trim_end (dropWhile is_ws s)"

text \<open>The \<^verbatim>\<open>i\<close> flag of a regular expression without the \<^verbatim>\<open>u\<close> flag: two code units match when
  their upper-case forms agree, and a code unit above U+007F never matches an ASCII one.  For the
  ASCII patterns of this program that is equality after folding \<^verbatim>\<open>A-Z\<close> to \<^verbatim>\<open>a-z\<close>.\<close>

definition lower_ascii :: "char \<Rightarrow> char" where
  "lower_ascii c = (if 65 \<le> code c \<and> code c \<le> 90 then char_of (code c + 32) else c)"

text \<open>A literal pattern matched at the start of the input, ignoring ASCII case; the result is the
  rest of the input.\<close>

fun match_ci :: "string \<Rightarrow> string \<Rightarrow> string option" where
  "match_ci [] s = Some s"
| "match_ci (p # ps) [] = None"
| "match_ci (p # ps) (c # cs) = (if lower_ascii c = lower_ascii p then match_ci ps cs else None)"

text \<open>An optional literal, as in \<^verbatim>\<open>s?\<close> and \<^verbatim>\<open>(?:www\.)?\<close>: it is consumed when present.  In both
  patterns the text that follows the optional part cannot start the way the optional part does,
  so skipping a present optional part never leads to a match.\<close>

definition match_opt_ci :: "string \<Rightarrow> string \<Rightarrow> string" where
  "match_opt_ci p s = (case match_ci p s of Some r \<Rightarrow> r | None \<Rightarrow> s)"

text \<open>\<^verbatim>\<open>([^/]+)\/\<close>: the longest run of code units other than \<^verbatim>\<open>/\<close>, which must be non-empty
  and followed by \<^verbatim>\<open>/\<close>.  The result is the captured group and the input after the slash.\<close>

definition take_segment :: "string \<Rightarrow> (string \<times> string) option" where
  "take_segment s =
     (let seg = takeWhile (\<lambda>c. c \<noteq> CHR ''/'') s;
          rest = dropWhile (\<lambda>c. c \<noteq> CHR ''/'') s
      in if seg = [] then None
         else (case rest of [] \<Rightarrow> None | _ # r \<Rightarrow> Some (seg, r)))"

text \<open>\<^verbatim>\<open>(.+)$\<close>: the rest of the input, non-empty and free of line terminators (LF and CR below
  U+0100), since \<^verbatim>\<open>.\<close> does not match them and \<^verbatim>\<open>$\<close> is the end of the input.\<close>

definition is_line_terminator :: "char \<Rightarrow> bool" where
  "is_line_terminator c = (code c \<in> {10, 13})"

definition take_rest :: "string \<Rightarrow> string option" where
  "take_rest s = (if s \<noteq> [] \<and> list_all (\<lambda>c. \<not> is_line_terminator c) s then Some s else None)"

text \<open>\<^verbatim>\<open>path.replace(/^\//, '')\<close> removes one leading slash.\<close>

fun strip_leading_slash :: "string \<Rightarrow> string" where
  "strip_leading_slash (c # cs) = (if c = CHR ''/'' then cs else c # cs)"
| "strip_leading_slash [] = []"

text \<open>\<^verbatim>\<open>.replace(/\/+/g, '/')\<close> replaces every maximal run of slashes by one slash.\<close>

fun collapse_slashes :: "string \<Rightarrow> string" where
  "collapse_slashes (a # b # cs) =
     (if a = CHR ''/'' \<and> b = CHR ''/'' then collapse_slashes (b # cs)
      else a # collapse_slashes (b # cs))"
| "collapse_slashes cs = cs"

section \<open>\<^verbatim>\<open>src/lib/github.js\<close>: parsing a GitHub URL\<close>

text \<open>The argument of \<^verbatim>\<open>parseGitHubUrl\<close> is any JavaScript value; \<open>JsOther\<close> stands for every value
  that is neither a string nor \<^verbatim>\<open>null\<close> nor \<^verbatim>\<open>undefined\<close>.\<close>

datatype js_value = JsUndefined | JsNull | JsStr string | JsOther

record normalized_url =
  owner :: string
  repo :: string
  branch :: string
  path :: string
  key :: string

text \<open>The platform's \<^verbatim>\<open>new URL(s)\<close>, as far as this program reads it: \<open>Some (origin, pathname)\<close>,
  or \<open>None\<close> when the constructor throws.\<close>

type_synonym url_ctor = "string \<Rightarrow> (string \<times> string) option"

text \<open>The four groups \<^verbatim>\<open>([^/]+)\/([^/]+)\/([^/]+)\/(.+)$\<close> of the raw pattern.\<close>

definition raw_groups :: "string \<Rightarrow> (string \<times> string \<times> string \<times> string) option" where
  "raw_groups s =
     (case take_segment s of None \<Rightarrow> None | Some (ow, s1) \<Rightarrow>
      (case take_segment s1 of None \<Rightarrow> None | Some (rp, s2) \<Rightarrow>
       (case take_segment s2 of None \<Rightarrow> None | Some (br, s3) \<Rightarrow>
        (case take_rest s3 of None \<Rightarrow> None | Some pa \<Rightarrow> Some (ow, rp, br, pa)))))"

text \<open>The four groups \<^verbatim>\<open>([^/]+)\/([^/]+)\/blob\/([^/]+)\/(.+)$\<close> of the blob pattern.\<close>

definition blob_groups :: "string \<Rightarrow> (string \<times> string \<times> string \<times> string) option" where
  "blob_groups s =
     (case take_segment s of None \<Rightarrow> None | Some (ow, s1) \<Rightarrow>
      (case take_segment s1 of None \<Rightarrow> None | Some (rp, s2) \<Rightarrow>
       (case match_ci ''blob/'' s2 of None \<Rightarrow> None | Some s3 \<Rightarrow>
        (case take_segment s3 of None \<Rightarrow> None | Some (br, s4) \<Rightarrow>
         (case take_rest s4 of None \<Rightarrow> None | Some pa \<Rightarrow> Some (ow, rp, br, pa))))))"

text \<open>\<^verbatim>\<open>/^https?:\/\/raw\.githubusercontent\.com\/([^/]+)\/([^/]+)\/([^/]+)\/(.+)$/i\<close>\<close>

definition rawMatch :: "string \<Rightarrow> (string \<times> string \<times> string \<times> string) option" where
  "rawMatch s =
     (case match_ci ''http'' s of None \<Rightarrow> None | Some s1 \<Rightarrow>
      (case match_ci ''://raw.githubusercontent.com/'' (match_opt_ci ''s'' s1) of
         None \<Rightarrow> None
       | Some s2 \<Rightarrow> raw_groups s2))"

text \<open>\<^verbatim>\<open>/^https?:\/\/(?:www\.)?github\.com\/([^/]+)\/([^/]+)\/blob\/([^/]+)\/(.+)$/i\<close>\<close>

definition blobMatch :: "string \<Rightarrow> (string \<times> string \<times> string \<times> string) option" where
  "blobMatch s =
     (case match_ci ''http'' s of None \<Rightarrow> None | Some s1 \<Rightarrow>
      (case match_ci ''://'' (match_opt_ci ''s'' s1) of None \<Rightarrow> None | Some s2 \<Rightarrow>
       (case match_ci ''github.com/'' (match_opt_ci ''www.'' s2) of
          None \<Rightarrow> None
        | Some s3 \<Rightarrow> blob_groups s3)))"

text \<open>The object literal that both branches of \<^verbatim>\<open>parseGitHubUrl\<close> return.\<close>

definition make_normalized :: "string \<times> string \<times> string \<times> string \<Rightarrow> normalized_url" where
  "make_normalized g =
     (case g of (ow, rp, br, pa) \<Rightarrow>
        \<lparr>owner = ow, repo = rp, branch = br, path = strip_leading_slash pa,
         key = collapse_slashes (ow @ ''/'' @ rp @ ''/'' @ br @ ''/'' @ pa)\<rparr>)"

text \<open>\<^verbatim>\<open>trimmed\<close> after the \<^verbatim>\<open>try\<close> block: origin and pathname of the parsed URL, or the trimmed
  input when the constructor throws.\<close>

definition normalize_input :: "url_ctor \<Rightarrow> string \<Rightarrow> string" where
  "normalize_input URL s =
     (case URL (trim s) of Some (origin, pathname) \<Rightarrow> origin @ pathname | None \<Rightarrow> trim s)"

definition parseGitHubUrl :: "url_ctor \<Rightarrow> js_value \<Rightarrow> normalized_url option" where
  "parseGitHubUrl URL v =
     (case v of
        JsStr u \<Rightarrow>
          if u = [] then None
          else (let trimmed = normalize_input URL u in
                case rawMatch trimmed of
                  Some g \<Rightarrow> Some (make_normalized g)
                | None \<Rightarrow>
                   (case blobMatch trimmed of
                      Some g \<Rightarrow> Some (make_normalized g)
                    | None \<Rightarrow> None))
      | _ \<Rightarrow> None)"

section \<open>The platform's URL constructor\<close>

text \<open>
  \<^verbatim>\<open>new URL(s)\<close> is a platform function.  Every general theorem below holds for an arbitrary
  \<^typ>\<open>url_ctor\<close>.  For evaluating concrete inputs, \<open>URL_new\<close> follows the basic URL parser of
  the WHATWG URL Standard (no base URL) for the schemes \<^verbatim>\<open>http\<close>, \<^verbatim>\<open>https\<close>, \<^verbatim>\<open>ws\<close>, \<^verbatim>\<open>wss\<close> and
  \<^verbatim>\<open>ftp\<close> with an ASCII domain as host: leading and trailing C0 controls and spaces are stripped,
  tabs and newlines removed, the scheme and the host lower-cased, credentials and a default port
  dropped, backslashes read as slashes, dot segments resolved, the path percent-encoded, query
  and fragment cut off.  Not modelled, and answered with \<open>None\<close>: other schemes, IPv6 and
  numeric (IPv4) hosts, and hosts that need IDNA processing (non-ASCII code points or
  \<^verbatim>\<open>xn--\<close> labels).
\<close>

definition is_c0_or_space :: "char \<Rightarrow> bool" where
  "is_c0_or_space c = (code c \<le> 32)"

definition is_tab_or_newline :: "char \<Rightarrow> bool" where
  "is_tab_or_newline c = (code c \<in> {9, 10, 13})"

definition is_alpha :: "char \<Rightarrow> bool" where
  "is_alpha c = (97 \<le> code (lower_ascii c) \<and> code (lower_ascii c) \<le> 122)"

definition is_digit :: "char \<Rightarrow> bool" where
  "is_digit c = (48 \<le> code c \<and> code c \<le> 57)"

definition is_hex_digit :: "char \<Rightarrow> bool" where
  "is_hex_digit c = (is_digit c \<or> (97 \<le> code (lower_ascii c) \<and> code (lower_ascii c) \<le> 102))"

definition hex_value :: "char \<Rightarrow> nat" where
  "hex_value c = (if is_digit c then code c - 48 else code (lower_ascii c) - 87)"

definition hex_char :: "nat \<Rightarrow> char" where
  "hex_char n = (if n < 10 then char_of (48 + n) else char_of (55 + n))"

fun string_of_nat :: "nat \<Rightarrow> string" where
  "string_of_nat n =
     (if n < 10 then [char_of (48 + n)] else string_of_nat (n div 10) @ [char_of (48 + n mod 10)])"

declare string_of_nat.simps [simp del]

definition nat_of_digits :: "string \<Rightarrow> nat" where
  "nat_of_digits ds = foldl (\<lambda>a c. 10 * a + (code c - 48)) 0 ds"

text \<open>\<^verbatim>\<open>s.split(d)\<close> for a one-character separator; the result is never empty.\<close>

fun split_on :: "char \<Rightarrow> string \<Rightarrow> string list" where
  "split_on d [] = [[]]"
| "split_on d (c # cs) =
     (if c = d then [] # split_on d cs
      else (case split_on d cs of x # xs \<Rightarrow> (c # x) # xs | [] \<Rightarrow> [[c]]))"

definition url_strip :: "string \<Rightarrow> string" where
  "url_strip s = rev (dropWhile is_c0_or_space (rev (dropWhile is_c0_or_space s)))"

definition is_scheme_char :: "char \<Rightarrow> bool" where
  "is_scheme_char c = (is_alpha c \<or> is_digit c \<or> c = CHR ''+'' \<or> c = CHR ''-'' \<or> c = CHR ''.'')"

text \<open>Scheme start state and scheme state: the lower-cased scheme and the input after the colon.\<close>

definition url_scheme :: "string \<Rightarrow> (string \<times> string) option" where
  "url_scheme s =
     (case s of
        [] \<Rightarrow> None
      | c # _ \<Rightarrow>
          if \<not> is_alpha c then None
          else (case dropWhile is_scheme_char s of
                  [] \<Rightarrow> None
                | d # r \<Rightarrow>
                    if d = CHR '':'' then Some (map lower_ascii (takeWhile is_scheme_char s), r)
                    else None))"

definition default_port :: "string \<Rightarrow> nat option" where
  "default_port scheme =
     (if scheme = ''http'' then Some 80
      else if scheme = ''https'' then Some 443
      else if scheme = ''ws'' then Some 80
      else if scheme = ''wss'' then Some 443
      else if scheme = ''ftp'' then Some 21
      else None)"

definition is_slash :: "char \<Rightarrow> bool" where
  "is_slash c = (c = CHR ''/'' \<or> c = CHR 0x5C)"

definition is_authority_end :: "char \<Rightarrow> bool" where
  "is_authority_end c = (is_slash c \<or> c = CHR ''?'' \<or> c = CHR ''#'')"

text \<open>Authority state: credentials end at the last \<^verbatim>\<open>@\<close>.\<close>

definition after_last_at :: "string \<Rightarrow> string" where
  "after_last_at s = rev (takeWhile (\<lambda>c. c \<noteq> CHR ''@'') (rev s))"

fun percent_decode :: "string \<Rightarrow> string" where
  "percent_decode (c # h1 # h2 # cs) =
     (if c = CHR ''%'' \<and> is_hex_digit h1 \<and> is_hex_digit h2
      then char_of (16 * hex_value h1 + hex_value h2) # percent_decode cs
      else c # percent_decode (h1 # h2 # cs))"
| "percent_decode cs = cs"

definition is_forbidden_domain_char :: "char \<Rightarrow> bool" where
  "is_forbidden_domain_char c =
     (code c \<le> 32 \<or> code c = 127 \<or> c = CHR 0x5C \<or> c \<in> set ''#/:<>?@[]^|%'')"

text \<open>The ends-in-a-number checker, on a lower-cased host.\<close>

definition ends_in_number :: "string \<Rightarrow> bool" where
  "ends_in_number h =
     (let parts = split_on (CHR ''.'') h;
          parts' = (if last parts = [] \<and> 1 < length parts then butlast parts else parts);
          l = last parts'
      in (l \<noteq> [] \<and> list_all is_digit l)
         \<or> (case l of
               a # b # r \<Rightarrow> a = CHR ''0'' \<and> b = CHR ''x'' \<and> list_all is_hex_digit r
             | _ \<Rightarrow> False))"

text \<open>The host parser for a special scheme; the outer \<open>None\<close> marks a host outside the model,
  \<open>Some None\<close> a parse failure.\<close>

definition host_parse :: "string \<Rightarrow> string option option" where
  "host_parse h =
     (let d = map lower_ascii (percent_decode h) in
      if (case h of c # _ \<Rightarrow> c = CHR ''['' | [] \<Rightarrow> False) then None
      else if list_ex (\<lambda>c. 128 \<le> code c) d then None
      else if list_ex (\<lambda>l. match_ci ''xn--'' l \<noteq> None) (split_on (CHR ''.'') d) then None
      else if d = [] \<or> list_ex is_forbidden_domain_char d then Some None
      else if ends_in_number d then None
      else Some (Some d))"

text \<open>Port state: \<open>None\<close> is a failure, \<open>Some None\<close> no port or the default port.\<close>

definition port_parse :: "nat \<Rightarrow> string \<Rightarrow> nat option option" where
  "port_parse dflt ds =
     (if \<not> list_all is_digit ds then None
      else if ds = [] then Some None
      else if 65535 < nat_of_digits ds then None
      else if nat_of_digits ds = dflt then Some None
      else Some (Some (nat_of_digits ds)))"

text \<open>The path percent-encode set, and UTF-8 percent-encoding of a code point below U+0100.\<close>

definition in_path_encode_set :: "char \<Rightarrow> bool" where
  "in_path_encode_set c = (code c \<le> 31 \<or> 126 < code c \<or> c = CHR 0x22 \<or> c = CHR 0x60
        \<or> c \<in> set '' #<>?^{}'')"

definition percent_byte :: "nat \<Rightarrow> string" where
  "percent_byte n = [CHR ''%'', hex_char (n div 16), hex_char (n mod 16)]"

definition utf8_percent_encode :: "char \<Rightarrow> string" where
  "utf8_percent_encode c =
     (if code c < 128 then percent_byte (code c)
      else percent_byte (192 + code c div 64) @ percent_byte (128 + code c mod 64))"

definition path_encode :: "char \<Rightarrow> string" where
  "path_encode c = (if in_path_encode_set c then utf8_percent_encode c else [c])"

definition is_single_dot :: "string \<Rightarrow> bool" where
  "is_single_dot b = (map lower_ascii b \<in> {''.'', ''%2e''})"

definition is_double_dot :: "string \<Rightarrow> bool" where
  "is_double_dot b = (map lower_ascii b \<in> {''..'', ''.%2e'', ''%2e.'', ''%2e%2e''})"

text \<open>Path state: the input, the segment being read, and the segments read so far.\<close>

definition path_finish :: "string \<Rightarrow> string list \<Rightarrow> string list" where
  "path_finish buf segs =
     (if is_double_dot buf then butlast segs @ [[]]
      else if is_single_dot buf then segs @ [[]]
      else segs @ [buf])"

fun path_state :: "string \<Rightarrow> string \<Rightarrow> string list \<Rightarrow> string list" where
  "path_state [] buf segs = path_finish buf segs"
| "path_state (c # cs) buf segs =
     (if c = CHR ''?'' \<or> c = CHR ''#'' then path_finish buf segs
      else if is_slash c
      then path_state cs []
             (if is_double_dot buf then butlast segs
              else if is_single_dot buf then segs
              else segs @ [buf])
      else path_state cs (buf @ path_encode c) segs)"

text \<open>Path start state, then the serialized path.\<close>

definition url_pathname :: "string \<Rightarrow> string" where
  "url_pathname s =
     concat (map (\<lambda>seg. CHR ''/'' # seg)
       (path_state (case s of c # cs \<Rightarrow> if is_slash c then cs else s | [] \<Rightarrow> s) [] []))"

definition URL_new :: url_ctor where
  "URL_new s =
     (case url_scheme (filter (\<lambda>c. \<not> is_tab_or_newline c) (url_strip s)) of
        None \<Rightarrow> None
      | Some (scheme, rest) \<Rightarrow>
         (case default_port scheme of
            None \<Rightarrow> None
          | Some dflt \<Rightarrow>
             (let r = dropWhile is_slash rest;
                  hostport = after_last_at (takeWhile (\<lambda>c. \<not> is_authority_end c) r);
                  tail = dropWhile (\<lambda>c. \<not> is_authority_end c) r;
                  h = takeWhile (\<lambda>c. c \<noteq> CHR '':'') hostport
              in case host_parse h of
                   None \<Rightarrow> None
                 | Some None \<Rightarrow> None
                 | Some (Some host) \<Rightarrow>
                    (case port_parse dflt (drop (Suc (length h)) hostport) of
                       None \<Rightarrow> None
                     | Some port \<Rightarrow>
                         Some (scheme @ ''://'' @ host
                                 @ (case port of None \<Rightarrow> [] | Some p \<Rightarrow> CHR '':'' # string_of_nat p),
                               url_pathname tail)))))"

section \<open>\<^verbatim>\<open>src/lib/storage.js\<close>\<close>

text \<open>A thrown JavaScript error with its \<^verbatim>\<open>message\<close>: \<open>Error m\<close> is \<^verbatim>\<open>new Error(m)\<close> thrown by this
  program, \<open>Rejected m\<close> an error raised by the platform (a failed network request, an unreadable
  or malformed body, an unavailable storage) with the platform's message.\<close>

datatype js_error = Error string | Rejected string

fun message :: "js_error \<Rightarrow> string" where
  "message (Error m) = m"
| "message (Rejected m) = m"

text \<open>A value produced by \<^verbatim>\<open>JSON.parse\<close>; a number is kept as its source text.\<close>

datatype json =
  JNull | JBool bool | JNumber string | JString string
  | JArray "json list" | JObject "(string \<times> json) list"

text \<open>\<^verbatim>\<open>localStorage\<close>: the stored items, and the error that every access throws when the storage
  is unavailable.\<close>

record local_storage =
  items :: "string \<rightharpoonup> string"
  broken :: "js_error option"

definition getItem :: "local_storage \<Rightarrow> string \<Rightarrow> js_error + string option" where
  "getItem ls k = (case broken ls of Some e \<Rightarrow> Inl e | None \<Rightarrow> Inr (items ls k))"

definition setItem :: "local_storage \<Rightarrow> string \<Rightarrow> string \<Rightarrow> js_error + local_storage" where
  "setItem ls k v = (case broken ls of Some e \<Rightarrow> Inl e | None \<Rightarrow> Inr (ls\<lparr>items := (items ls)(k \<mapsto> v)\<rparr>))"

definition STORAGE_KEY :: string where
  "STORAGE_KEY = ''api-explorer-docs''"

definition STORAGE_KEY_TOKEN :: string where
  "STORAGE_KEY_TOKEN = ''api-explorer-github-token''"

text \<open>\<^verbatim>\<open>loadDocs\<close>, with the platform's \<^verbatim>\<open>JSON.parse\<close> as a parameter (\<open>None\<close>: it throws).\<close>

definition loadDocs :: "(string \<Rightarrow> json option) \<Rightarrow> local_storage \<Rightarrow> json list" where
  "loadDocs JSON_parse ls =
     (case getItem ls STORAGE_KEY of
        Inl e \<Rightarrow> []
      | Inr None \<Rightarrow> []
      | Inr (Some raw) \<Rightarrow>
          if raw = [] then []
          else (case JSON_parse raw of
                  None \<Rightarrow> []
                | Some parsed \<Rightarrow> (case parsed of JArray xs \<Rightarrow> xs | _ \<Rightarrow> [])))"

definition loadToken :: "local_storage \<Rightarrow> string" where
  "loadToken ls =
     (case getItem ls STORAGE_KEY_TOKEN of
        Inl e \<Rightarrow> []
      | Inr None \<Rightarrow> []
      | Inr (Some t) \<Rightarrow> t)"

record doc_entry =
  doc_id :: string
  name :: "string option"
  label :: "string option"
  githubUrl :: string
  normalized :: normalized_url

text \<open>\<^verbatim>\<open>saveDocs\<close>, with \<^verbatim>\<open>JSON.stringify\<close> as a parameter; a failing write is caught and only
  logged.\<close>

definition saveDocs :: "(doc_entry list \<Rightarrow> string) \<Rightarrow> local_storage \<Rightarrow> doc_entry list \<Rightarrow> local_storage" where
  "saveDocs JSON_stringify ls ds =
     (case setItem ls STORAGE_KEY (JSON_stringify ds) of Inl e \<Rightarrow> ls | Inr ls' \<Rightarrow> ls')"

section \<open>The state of the user interface\<close>

text \<open>The React state of \<^verbatim>\<open>App\<close> and \<^verbatim>\<open>DocList\<close>, the ref \<^verbatim>\<open>selectedIdRef\<close>, and the browser's
  storage.\<close>

record ui_state =
  docs :: "doc_entry list"
  selectedId :: "string option"
  selectedIdRef :: "string option"
  fetchedYaml :: "string option"
  loading :: bool
  error :: "string option"
  token :: string
  inputUrl :: string
  inputName :: string
  addError :: string
  editingId :: "string option"
  editingName :: string
  storage :: local_storage

section \<open>\<^verbatim>\<open>src/components/DocList.jsx\<close>\<close>

text \<open>\<^verbatim>\<open>handleSetDocs\<close> of \<^verbatim>\<open>App\<close>, passed to \<^verbatim>\<open>DocList\<close> as \<^verbatim>\<open>setDocs\<close>.\<close>

definition handleSetDocs :: "(doc_entry list \<Rightarrow> string) \<Rightarrow> doc_entry list \<Rightarrow> ui_state \<Rightarrow> ui_state" where
  "handleSetDocs JSON_stringify nextDocs s =
     s\<lparr>docs := nextDocs, storage := saveDocs JSON_stringify (storage s) nextDocs\<rparr>"

text \<open>\<^verbatim>\<open>x.trim() || undefined\<close>\<close>

definition trim_or_undefined :: "string \<Rightarrow> string option" where
  "trim_or_undefined x = (if trim x = [] then None else Some (trim x))"

text \<open>\<^verbatim>\<open>handleAdd\<close>; \<open>newId\<close> is the value of \<^verbatim>\<open>generateId()\<close>, which reads the clock and a random
  number.\<close>

definition handleAdd :: "url_ctor \<Rightarrow> (doc_entry list \<Rightarrow> string) \<Rightarrow> string \<Rightarrow> ui_state \<Rightarrow> ui_state" where
  "handleAdd URL JSON_stringify newId s =
     (case parseGitHubUrl URL (JsStr (inputUrl s)) of
        None \<Rightarrow> s\<lparr>addError := ''Invalid GitHub URL. Use a blob or raw URL to a YAML file.''\<rparr>
      | Some n \<Rightarrow>
          if list_ex (\<lambda>d. key (normalized d) = key n) (docs s)
          then s\<lparr>addError := ''This doc is already in the list.''\<rparr>
          else
            (let newDoc =
                   \<lparr>doc_id = newId,
                    name = trim_or_undefined (inputName s),
                    label = Some (if last (split_on (CHR ''/'') (path n)) = [] then ''API Doc''
                                  else last (split_on (CHR ''/'') (path n))),
                    githubUrl = trim (inputUrl s),
                    normalized = n\<rparr>;
                 next = docs s @ [newDoc];
                 s1 = handleSetDocs JSON_stringify next (s\<lparr>addError := []\<rparr>)
             in s1\<lparr>storage := saveDocs JSON_stringify (storage s1) next,
                   inputUrl := [], inputName := [], selectedId := Some newId\<rparr>))"

definition handleRename :: "(doc_entry list \<Rightarrow> string) \<Rightarrow> string \<Rightarrow> string \<Rightarrow> ui_state \<Rightarrow> ui_state" where
  "handleRename JSON_stringify i newName s =
     (let next = map (\<lambda>d. if doc_id d = i then d\<lparr>name := trim_or_undefined newName\<rparr> else d) (docs s);
          s1 = handleSetDocs JSON_stringify next s
      in s1\<lparr>storage := saveDocs JSON_stringify (storage s1) next,
            editingId := None, editingName := []\<rparr>)"

definition handleRemove :: "(doc_entry list \<Rightarrow> string) \<Rightarrow> string \<Rightarrow> ui_state \<Rightarrow> ui_state" where
  "handleRemove JSON_stringify i s =
     (let next = filter (\<lambda>d. doc_id d \<noteq> i) (docs s);
          s1 = handleSetDocs JSON_stringify next s;
          s2 = s1\<lparr>storage := saveDocs JSON_stringify (storage s1) next\<rparr>
      in if selectedId s = Some i
         then s2\<lparr>selectedId := (case next of [] \<Rightarrow> None | d # _ \<Rightarrow> Some (doc_id d))\<rparr>
         else s2)"

section \<open>\<^verbatim>\<open>src/lib/github.js\<close>: fetching the file\<close>

definition GITHUB_API_BASE :: string where
  "GITHUB_API_BASE = ''https://api.github.com''"

text \<open>\<^verbatim>\<open>/^[0-9a-f]{40}$/i.test(ref)\<close>\<close>

definition isCommitSha :: "string \<Rightarrow> bool" where
  "isCommitSha ref = (length ref = 40 \<and> list_all is_hex_digit ref)"

text \<open>A request is the URL and the two headers that \<^verbatim>\<open>fetch\<close> is called with.\<close>

record request =
  url :: string
  accept :: string
  authorization :: "string option"

text \<open>The fields that this program reads from a JSON body of the GitHub API, typed as the API
  documents them: \<^verbatim>\<open>message\<close> of an error body, \<^verbatim>\<open>tree.sha\<close> of a commit, and \<^verbatim>\<open>truncated\<close> and
  \<^verbatim>\<open>tree\<close> (the entries) of a tree.  An absent field is \<open>None\<close>.\<close>

record tree_entry =
  entry_path :: string
  entry_type :: string
  entry_sha :: "string option"

record json_body =
  body_message :: "string option"
  tree_sha :: "string option"
  truncated :: bool
  tree_entries :: "tree_entry list option"

text \<open>A response: \<^verbatim>\<open>status\<close>, \<^verbatim>\<open>statusText\<close>, and what \<^verbatim>\<open>text()\<close> and \<^verbatim>\<open>json()\<close> settle with
  (\<open>Inl\<close>: the promise rejects).  \<^verbatim>\<open>ok\<close> is derived from the status, as the Fetch Standard
  defines it.\<close>

record response =
  status :: nat
  statusText :: string
  res_text :: "js_error + string"
  res_json :: "js_error + json_body"

definition ok :: "response \<Rightarrow> bool" where
  "ok r = (200 \<le> status r \<and> status r \<le> 299)"

text \<open>The platform's \<^verbatim>\<open>fetch\<close>: \<open>Inl\<close> when the promise rejects (a network failure).\<close>

type_synonym fetch_fn = "request \<Rightarrow> js_error + response"

text \<open>\<^verbatim>\<open>if (token) headers.Authorization = `Bearer ${token}`\<close>; the token is a string or
  \<^verbatim>\<open>undefined\<close>.\<close>

definition bearer :: "string option \<Rightarrow> string option" where
  "bearer tok = (case tok of None \<Rightarrow> None | Some t \<Rightarrow> if t = [] then None else Some (''Bearer '' @ t))"

definition quoted :: "string \<Rightarrow> string" where
  "quoted s = CHR 0x22 # s @ [CHR 0x22]"

text \<open>\<^verbatim>\<open>encodeURIComponent\<close> on code points below U+0100.\<close>

definition encodeURIComponent :: "string \<Rightarrow> string" where
  "encodeURIComponent s =
     concat (map (\<lambda>c. if is_alpha c \<or> is_digit c \<or> c = CHR 0x27 \<or> c \<in> set ''-_.!~*()'' then [c]
                       else utf8_percent_encode c) s)"

fun join_with :: "string \<Rightarrow> string list \<Rightarrow> string" where
  "join_with sep [] = []"
| "join_with sep [x] = x"
| "join_with sep (x # y # r) = x @ sep @ join_with sep (y # r)"

definition buildContentsUrl :: "normalized_url \<Rightarrow> string" where
  "buildContentsUrl n =
     GITHUB_API_BASE @ ''/repos/'' @ owner n @ ''/'' @ repo n @ ''/contents/''
       @ join_with ''/'' (map encodeURIComponent (split_on (CHR ''/'') (path n)))
       @ ''?ref='' @ encodeURIComponent (branch n)"

text \<open>The requests of \<^verbatim>\<open>fetchBlobByCommit\<close> and of \<^verbatim>\<open>fetchYamlFromGitHub\<close>.\<close>

definition commit_request :: "normalized_url \<Rightarrow> string \<Rightarrow> string option \<Rightarrow> request" where
  "commit_request n commitSha tok =
     \<lparr>url = GITHUB_API_BASE @ ''/repos/'' @ owner n @ ''/'' @ repo n @ ''/git/commits/'' @ commitSha,
      accept = ''application/vnd.github.v3+json'', authorization = bearer tok\<rparr>"

definition tree_request :: "normalized_url \<Rightarrow> string \<Rightarrow> string option \<Rightarrow> request" where
  "tree_request n treeSha tok =
     \<lparr>url = GITHUB_API_BASE @ ''/repos/'' @ owner n @ ''/'' @ repo n @ ''/git/trees/'' @ treeSha
              @ ''?recursive=1'',
      accept = ''application/vnd.github.v3+json'', authorization = bearer tok\<rparr>"

definition blob_request :: "normalized_url \<Rightarrow> string \<Rightarrow> string option \<Rightarrow> request" where
  "blob_request n blobSha tok =
     \<lparr>url = GITHUB_API_BASE @ ''/repos/'' @ owner n @ ''/'' @ repo n @ ''/git/blobs/'' @ blobSha,
      accept = ''application/vnd.github.raw'', authorization = bearer tok\<rparr>"

definition contents_request :: "normalized_url \<Rightarrow> string option \<Rightarrow> request" where
  "contents_request n tok =
     \<lparr>url = buildContentsUrl n, accept = ''application/vnd.github.raw'', authorization = bearer tok\<rparr>"

text \<open>Every function below returns the requests it issued, in order, and how its promise
  settles: \<open>Inr\<close> the file's text, \<open>Inl\<close> the error it rejects with.\<close>

type_synonym fetch_result = "request list \<times> (js_error + string)"

text \<open>\<^verbatim>\<open>fetchBlobByCommit\<close>, lines 115 to 122: the blob request.\<close>

definition fetchBlobByCommit_blob :: "fetch_fn \<Rightarrow> normalized_url \<Rightarrow> string option \<Rightarrow> string \<Rightarrow> fetch_result" where
  "fetchBlobByCommit_blob fetch n tok blobSha =
     (case fetch (blob_request n blobSha tok) of
        Inl e \<Rightarrow> ([blob_request n blobSha tok], Inl e)
      | Inr blobRes \<Rightarrow>
          if \<not> ok blobRes
          then ([blob_request n blobSha tok],
                Inl (Error (''GitHub API error: '' @ string_of_nat (status blobRes))))
          else ([blob_request n blobSha tok], res_text blobRes))"

text \<open>\<^verbatim>\<open>tree.tree?.find((e) => e.path === path && e.type === 'blob')\<close> and \<^verbatim>\<open>entry?.sha\<close>, with
  \<open>None\<close> for a falsy result.\<close>

definition blob_entry_sha :: "json_body \<Rightarrow> string \<Rightarrow> string option" where
  "blob_entry_sha tree p =
     (case tree_entries tree of
        None \<Rightarrow> None
      | Some es \<Rightarrow>
         (case find (\<lambda>e. entry_path e = p \<and> entry_type e = ''blob'') es of
            None \<Rightarrow> None
          | Some e \<Rightarrow>
             (case entry_sha e of
                None \<Rightarrow> None
              | Some sh \<Rightarrow> if sh = [] then None else Some sh)))"

text \<open>\<^verbatim>\<open>fetchBlobByCommit\<close>, lines 97 to 113: the tree request.\<close>

definition fetchBlobByCommit_tree :: "fetch_fn \<Rightarrow> normalized_url \<Rightarrow> string option \<Rightarrow> string \<Rightarrow> fetch_result" where
  "fetchBlobByCommit_tree fetch n tok treeSha =
     (case fetch (tree_request n treeSha tok) of
        Inl e \<Rightarrow> ([tree_request n treeSha tok], Inl e)
      | Inr treeRes \<Rightarrow>
          if status treeRes = 404
          then ([tree_request n treeSha tok], Inl (Error ''Tree not found.''))
          else if \<not> ok treeRes
          then ([tree_request n treeSha tok],
                Inl (Error (''GitHub API error: '' @ string_of_nat (status treeRes))))
          else
           (case res_json treeRes of
              Inl e \<Rightarrow> ([tree_request n treeSha tok], Inl e)
            | Inr tree \<Rightarrow>
                if truncated tree
                then ([tree_request n treeSha tok],
                      Inl (Error ''Repository tree is too large. Try using a branch name in the URL instead of a commit SHA.''))
                else
                 (case blob_entry_sha tree (path n) of
                    None \<Rightarrow>
                      ([tree_request n treeSha tok],
                       Inl (Error (''Path '' @ quoted (path n)
                                     @ '' not found in this commit. Check the file path.'')))
                  | Some blobSha \<Rightarrow>
                      (case fetchBlobByCommit_blob fetch n tok blobSha of
                         (reqs, r) \<Rightarrow> (tree_request n treeSha tok # reqs, r)))))"

text \<open>\<^verbatim>\<open>fetchBlobByCommit\<close>, from line 67: the commit request.\<close>

definition fetchBlobByCommit :: "fetch_fn \<Rightarrow> normalized_url \<Rightarrow> string \<Rightarrow> string option \<Rightarrow> fetch_result" where
  "fetchBlobByCommit fetch n commitSha tok =
     (case fetch (commit_request n commitSha tok) of
        Inl e \<Rightarrow> ([commit_request n commitSha tok], Inl e)
      | Inr commitRes \<Rightarrow>
          if status commitRes = 401
          then ([commit_request n commitSha tok],
                Inl (Error (''Invalid or expired GitHub token. Set a valid token in Settings (sidebar) with the ''
                              @ quoted ''repo'' @ '' scope.'')))
          else if status commitRes = 403
          then ([commit_request n commitSha tok],
                Inl (Error (''Access denied. Ensure your token is set in Settings and has the ''
                              @ quoted ''repo'' @ '' scope for private repos.'')))
          else if status commitRes = 404
          then ([commit_request n commitSha tok],
                Inl (Error (''Commit not found or no access. Set your token in Settings (sidebar). Classic tokens need ''
                              @ quoted ''repo''
                              @ '' scope; fine-grained tokens need Contents: Read for this repository.'')))
          else if \<not> ok commitRes
          then ([commit_request n commitSha tok],
                Inl (Error (''GitHub API error: '' @ string_of_nat (status commitRes))))
          else
           (case res_json commitRes of
              Inl e \<Rightarrow> ([commit_request n commitSha tok], Inl e)
            | Inr commit \<Rightarrow>
               (case tree_sha commit of
                  None \<Rightarrow> ([commit_request n commitSha tok], Inl (Error ''Commit has no tree.''))
                | Some treeSha \<Rightarrow>
                    if treeSha = []
                    then ([commit_request n commitSha tok], Inl (Error ''Commit has no tree.''))
                    else (case fetchBlobByCommit_tree fetch n tok treeSha of
                            (reqs, r) \<Rightarrow> (commit_request n commitSha tok # reqs, r)))))"

text \<open>\<^verbatim>\<open>/rate limit/i.test(m)\<close>\<close>

fun contains_ci :: "string \<Rightarrow> string \<Rightarrow> bool" where
  "contains_ci p [] = (match_ci p [] \<noteq> None)"
| "contains_ci p (c # cs) = (match_ci p (c # cs) \<noteq> None \<or> contains_ci p cs)"

text \<open>\<^verbatim>\<open>data.message && /rate limit/i.test(data.message)\<close>, where \<^verbatim>\<open>data\<close> is the parsed body or
  \<^verbatim>\<open>{}\<close> when \<^verbatim>\<open>json()\<close> rejects.\<close>

definition mentions_rate_limit :: "response \<Rightarrow> bool" where
  "mentions_rate_limit res =
     (case res_json res of
        Inl e \<Rightarrow> False
      | Inr data \<Rightarrow>
         (case body_message data of
            None \<Rightarrow> False
          | Some m \<Rightarrow> m \<noteq> [] \<and> contains_ci ''rate limit'' m))"

text \<open>The two characters U+2192 and U+2014 of the not-found message lie above U+00FF; they are
  written as their UTF-8 bytes.\<close>

definition arrow :: string where
  "arrow = [CHR 0xE2, CHR 0x86, CHR 0x92]"

definition em_dash :: string where
  "em_dash = [CHR 0xE2, CHR 0x80, CHR 0x94]"

definition not_found_message :: "normalized_url \<Rightarrow> string option \<Rightarrow> string" where
  "not_found_message n tok =
     ''File not found. ''
       @ (''Requested: '' @ owner n @ ''/'' @ repo n @ '' @ '' @ branch n @ '' '' @ arrow @ '' '' @ path n)
       @ '' '' @ em_dash @ '' ''
       @ (if bearer tok \<noteq> None
          then ''Check that the URL is correct and your token has the '' @ quoted ''repo''
                 @ '' scope (for private repos).''
          else ''If this is a private repo, add a GitHub token in Settings (with '' @ quoted ''repo''
                 @ '' scope).'')"

text \<open>\<^verbatim>\<open>fetchYamlFromGitHub\<close>.  \<^verbatim>\<open>fetchBlobByCommit\<close> resolves with a string, never with \<^verbatim>\<open>null\<close>, so
  the test \<^verbatim>\<open>content !== null\<close> holds whenever it is reached.\<close>

definition fetchYamlFromGitHub :: "fetch_fn \<Rightarrow> normalized_url \<Rightarrow> string option \<Rightarrow> fetch_result" where
  "fetchYamlFromGitHub fetch n tok =
     (case fetch (contents_request n tok) of
        Inl e \<Rightarrow> ([contents_request n tok], Inl e)
      | Inr res \<Rightarrow>
          if ok res then ([contents_request n tok], res_text res)
          else if status res = 404 \<and> isCommitSha (branch n)
          then (case fetchBlobByCommit fetch n (branch n) tok of
                  (reqs, r) \<Rightarrow> (contents_request n tok # reqs, r))
          else if status res = 404
          then ([contents_request n tok], Inl (Error (not_found_message n tok)))
          else if status res = 403
          then (if mentions_rate_limit res
                then ([contents_request n tok],
                      Inl (Error ''GitHub rate limit exceeded. Try again later or add a token.''))
                else ([contents_request n tok],
                      Inl (Error (if bearer tok \<noteq> None
                                  then ''Access denied (403). Ensure your token has the ''
                                         @ quoted ''repo'' @ '' scope.''
                                  else ''Access denied. Add a GitHub token in Settings.''))))
          else if status res = 401
          then ([contents_request n tok],
                Inl (Error (if bearer tok \<noteq> None
                            then ''Invalid or expired GitHub token. Create a new token and update Settings.''
                            else ''Unauthorized. For private repos, add a GitHub token in Settings.'')))
          else ([contents_request n tok],
                Inl (Error (''GitHub API error: '' @ string_of_nat (status res) @ '' '' @ statusText res))))"

section \<open>\<^verbatim>\<open>src/App.jsx\<close>: loading the selected doc\<close>

text \<open>\<^verbatim>\<open>loadDoc\<close> up to its \<^verbatim>\<open>await\<close>: the new state, and the arguments of the fetch it starts, if
  any.\<close>

definition loadDoc_start :: "string \<Rightarrow> ui_state \<Rightarrow> ui_state \<times> (normalized_url \<times> string option) option" where
  "loadDoc_start i s =
     (case find (\<lambda>d. doc_id d = i) (docs s) of
        None \<Rightarrow>
          ((if selectedId s = Some i then s\<lparr>fetchedYaml := None, error := None\<rparr> else s), None)
      | Some doc \<Rightarrow>
          (s\<lparr>loading := True, error := None\<rparr>, Some (normalized doc, trim_or_undefined (token s))))"

text \<open>\<^verbatim>\<open>loadDoc\<close> after its \<^verbatim>\<open>await\<close>: the \<^verbatim>\<open>try\<close>, \<^verbatim>\<open>catch\<close> and \<^verbatim>\<open>finally\<close> blocks, run on the
  state of the moment at which the fetch settles.\<close>

definition loadDoc_settle :: "string \<Rightarrow> js_error + string \<Rightarrow> ui_state \<Rightarrow> ui_state" where
  "loadDoc_settle i r s =
     (let s1 = (case r of
                  Inr t \<Rightarrow> if selectedIdRef s = Some i then s\<lparr>fetchedYaml := Some t\<rparr> else s
                | Inl e \<Rightarrow>
                    if selectedIdRef s = Some i
                    then s\<lparr>error := Some (message e), fetchedYaml := None\<rparr>
                    else s)
      in if selectedIdRef s1 = Some i then s1\<lparr>loading := False\<rparr> else s1)"

text \<open>A render of \<^verbatim>\<open>App\<close> executes \<^verbatim>\<open>selectedIdRef.current = selectedId\<close>: after it the ref holds the
  current selection.\<close>

definition render :: "ui_state \<Rightarrow> ui_state" where
  "render s = s\<lparr>selectedIdRef := selectedId s\<rparr>"

section \<open>Assumptions on the platform, and example values\<close>

text \<open>A settled promise whose rejection, if any, carries a non-empty message.\<close>

definition described :: "js_error + 'a \<Rightarrow> bool" where
  "described r = (case r of Inl e \<Rightarrow> message e \<noteq> [] | Inr _ \<Rightarrow> True)"

text \<open>Every rejection raised by the platform (by \<^verbatim>\<open>fetch\<close>, \<^verbatim>\<open>text()\<close> or \<^verbatim>\<open>json()\<close>) carries a
  non-empty message.\<close>

definition platform_errors_described :: "fetch_fn \<Rightarrow> bool" where
  "platform_errors_described fetch =
     (\<forall>req. described (fetch req)
        \<and> (\<forall>res. fetch req = Inr res \<longrightarrow> described (res_text res) \<and> described (res_json res)))"

text \<open>The state after the first render: the initial values given to \<^verbatim>\<open>useState\<close> and \<^verbatim>\<open>useRef\<close>.\<close>

definition initial_state :: "string \<Rightarrow> local_storage \<Rightarrow> ui_state" where
  "initial_state tok ls =
     \<lparr>docs = [], selectedId = None, selectedIdRef = None, fetchedYaml = None, loading = False,
      error = None, token = tok, inputUrl = [], inputName = [], addError = [],
      editingId = None, editingName = [], storage = ls\<rparr>"

text \<open>The two URL shapes of the comment above \<^verbatim>\<open>parseGitHubUrl\<close>.\<close>

definition blob_url :: "string \<Rightarrow> string \<Rightarrow> string \<Rightarrow> string \<Rightarrow> string" where
  "blob_url ow rp br pa = ''https://github.com/'' @ ow @ ''/'' @ rp @ ''/blob/'' @ br @ ''/'' @ pa"

definition raw_url :: "string \<Rightarrow> string \<Rightarrow> string \<Rightarrow> string \<Rightarrow> string" where
  "raw_url ow rp br pa = ''https://raw.githubusercontent.com/'' @ ow @ ''/'' @ rp @ ''/'' @ br @ ''/'' @ pa"

text \<open>A doc as \<^verbatim>\<open>handleAdd\<close> stores it, a second one, and a state that lists both and selects
  the first.\<close>

definition example_doc :: doc_entry where
  "example_doc =
     \<lparr>doc_id = ''doc-1'', name = None, label = Some ''openapi.yaml'',
      githubUrl = ''https://raw.githubusercontent.com/octocat/hello/main/docs/openapi.yaml'',
      normalized = \<lparr>owner = ''octocat'', repo = ''hello'', branch = ''main'',
                    path = ''docs/openapi.yaml'', key = ''octocat/hello/main/docs/openapi.yaml''\<rparr>\<rparr>"

definition other_doc :: doc_entry where
  "other_doc =
     \<lparr>doc_id = ''doc-2'', name = Some ''Pets'', label = Some ''pets.yaml'',
      githubUrl = ''https://github.com/octocat/pets/blob/v1/pets.yaml'',
      normalized = \<lparr>owner = ''octocat'', repo = ''pets'', branch = ''v1'',
                    path = ''pets.yaml'', key = ''octocat/pets/v1/pets.yaml''\<rparr>\<rparr>"

definition example_state :: ui_state where
  "example_state =
     (initial_state [] \<lparr>items = Map.empty, broken = None\<rparr>)
       \<lparr>docs := [example_doc, other_doc], selectedId := Some ''doc-1'',
        selectedIdRef := Some ''doc-1''\<rparr>"

text \<open>Stand-ins for \<^verbatim>\<open>JSON.stringify\<close> and \<^verbatim>\<open>JSON.parse\<close> in the examples: the first writes the ids,
  the second knows the two texts \<^verbatim>\<open>[null]\<close> and \<^verbatim>\<open>{}\<close>.\<close>

definition example_stringify :: "doc_entry list \<Rightarrow> string" where
  "example_stringify ds = join_with '','' (map doc_id ds)"

definition example_parse :: "string \<Rightarrow> json option" where
  "example_parse s =
     (if s = ''[null]'' then Some (JArray [JNull])
      else if s = ''{}'' then Some (JObject [])
      else None)"

text \<open>A platform on which the Contents API answers the request for the example doc with 403 and
  a rate-limit message, and every other request fails.\<close>

definition rate_limited_response :: response where
  "rate_limited_response =
     \<lparr>status = 403, statusText = ''Forbidden'',
      res_text = Inr ''API rate limit exceeded'',
      res_json = Inr \<lparr>body_message = Some ''API rate limit exceeded for 203.0.113.7.'',
                      tree_sha = None, truncated = False, tree_entries = None\<rparr>\<rparr>"

definition rate_limited_fetch :: fetch_fn where
  "rate_limited_fetch req =
     (if url req = buildContentsUrl (normalized example_doc) then Inr rate_limited_response
      else Inl (Rejected ''Failed to fetch''))"

text \<open>A platform on which the Contents API answers 404 for a doc given by a commit SHA, and
  the Git Data API serves the commit, its tree and the blob.\<close>

definition sha_normalized :: normalized_url where
  "sha_normalized =
     \<lparr>owner = ''octocat'', repo = ''hello'', branch = ''0123456789abcdef0123456789ABCDEF01234567'',
      path = ''docs/openapi.yaml'',
      key = ''octocat/hello/0123456789abcdef0123456789ABCDEF01234567/docs/openapi.yaml''\<rparr>"

definition empty_body :: json_body where
  "empty_body = \<lparr>body_message = None, tree_sha = None, truncated = False, tree_entries = None\<rparr>"

definition fallback_fetch :: fetch_fn where
  "fallback_fetch req =
     (if req = contents_request sha_normalized None
      then Inr \<lparr>status = 404, statusText = ''Not Found'', res_text = Inr ''Not Found'',
                 res_json = Inr (empty_body\<lparr>body_message := Some ''Not Found''\<rparr>)\<rparr>
      else if req = commit_request sha_normalized (branch sha_normalized) None
      then Inr \<lparr>status = 200, statusText = ''OK'', res_text = Inr [],
                 res_json = Inr (empty_body\<lparr>tree_sha := Some ''7a1c''\<rparr>)\<rparr>
      else if req = tree_request sha_normalized ''7a1c'' None
      then Inr \<lparr>status = 200, statusText = ''OK'', res_text = Inr [],
                 res_json = Inr (empty_body\<lparr>tree_entries :=
                   Some [\<lparr>entry_path = ''README.md'', entry_type = ''blob'', entry_sha = Some ''11aa''\<rparr>,
                         \<lparr>entry_path = ''docs'', entry_type = ''tree'', entry_sha = Some ''22bb''\<rparr>,
                         \<lparr>entry_path = ''docs/openapi.yaml'', entry_type = ''blob'',
                          entry_sha = Some ''33cc''\<rparr>]\<rparr>)\<rparr>
      else if req = blob_request sha_normalized ''33cc'' None
      then Inr \<lparr>status = 200, statusText = ''OK'', res_text = Inr ''openapi: 3.0.0'',
                 res_json = Inl (Rejected ''Unexpected token'')\<rparr>
      else Inl (Rejected ''Failed to fetch''))"

section \<open>The doc list\<close>

lemma docs_handleAdd:
  "docs (handleAdd URL J newId s) =
     (case parseGitHubUrl URL (JsStr (inputUrl s)) of
        None \<Rightarrow> docs s
      | Some n \<Rightarrow>
          if list_ex (\<lambda>d. key (normalized d) = key n) (docs s) then docs s
          else docs s @ [\<lparr>doc_id = newId, name = trim_or_undefined (inputName s),
                 label = Some (if last (split_on (CHR ''/'') (path n)) = [] then ''API Doc''
                               else last (split_on (CHR ''/'') (path n))),
                 githubUrl = trim (inputUrl s), normalized = n\<rparr>])"
  by (simp add: handleAdd_def handleSetDocs_def Let_def split: option.split)

lemma docs_handleRename:
  "docs (handleRename J i nm s) =
     map (\<lambda>d. if doc_id d = i then d\<lparr>name := trim_or_undefined nm\<rparr> else d) (docs s)"
  by (simp add: handleRename_def handleSetDocs_def Let_def)

lemma docs_handleRemove:
  "docs (handleRemove J i s) = filter (\<lambda>d. doc_id d \<noteq> i) (docs s)"
  by (simp add: handleRemove_def handleSetDocs_def Let_def)

lemma example_docs: "docs example_state = [example_doc, other_doc]"
  by (simp add: example_state_def initial_state_def)

lemma count_list_filter_keep:
  "P d \<Longrightarrow> count_list (filter P xs) d = count_list xs d"
  by (induction xs) auto

text \<open>
  C3.  When the key of the parsed input URL equals the key of a record of the list, \<^verbatim>\<open>handleAdd\<close>
  only sets the error message: the list, the storage and every other part of the state stay as
  they were.
\<close>

theorem handleAdd_rejects_duplicate:
  assumes "parseGitHubUrl URL (JsStr (inputUrl s)) = Some n"
    and "\<exists>d \<in> set (docs s). key (normalized d) = key n"
  shows "handleAdd URL J newId s = s\<lparr>addError := ''This doc is already in the list.''\<rparr>"
  using assms by (simp add: handleAdd_def list_ex_iff)

theorem handleAdd_rejects_duplicate_witness:
  "parseGitHubUrl URL_new
       (JsStr (inputUrl (example_state\<lparr>inputUrl := ''https://github.com/octocat/hello/blob/main/docs/openapi.yaml?raw=true''\<rparr>)))
     = Some (normalized example_doc)
   \<and> handleAdd URL_new example_stringify ''doc-3''
         (example_state\<lparr>inputUrl := ''https://github.com/octocat/hello/blob/main/docs/openapi.yaml?raw=true''\<rparr>)
       = example_state\<lparr>inputUrl := ''https://github.com/octocat/hello/blob/main/docs/openapi.yaml?raw=true'',
                        addError := ''This doc is already in the list.''\<rparr>"
proof -
  let ?s = "example_state\<lparr>inputUrl := ''https://github.com/octocat/hello/blob/main/docs/openapi.yaml?raw=true''\<rparr>"
  have u: "parseGitHubUrl URL_new (JsStr ''https://github.com/octocat/hello/blob/main/docs/openapi.yaml?raw=true'')
             = Some (normalized example_doc)"
    by code_simp
  then have p: "parseGitHubUrl URL_new (JsStr (inputUrl ?s)) = Some (normalized example_doc)"
    by simp
  have d: "\<exists>d \<in> set (docs ?s). key (normalized d) = key (normalized example_doc)"
    by (simp add: example_docs)
  show ?thesis
    using handleAdd_rejects_duplicate[OF p d, of example_stringify "''doc-3''"] p by simp
qed

text \<open>
  C4.  From a list whose records have pairwise distinct keys, \<^verbatim>\<open>handleAdd\<close>, \<^verbatim>\<open>handleRename\<close> and
  \<^verbatim>\<open>handleRemove\<close> each produce a list whose records have pairwise distinct keys.
\<close>

theorem key_uniqueness_preserved:
  assumes "distinct (map (\<lambda>d. key (normalized d)) (docs s))"
  shows "distinct (map (\<lambda>d. key (normalized d)) (docs (handleAdd URL J newId s)))
       \<and> distinct (map (\<lambda>d. key (normalized d)) (docs (handleRename J i nm s)))
       \<and> distinct (map (\<lambda>d. key (normalized d)) (docs (handleRemove J i s)))"
proof (intro conjI)
  show "distinct (map (\<lambda>d. key (normalized d)) (docs (handleAdd URL J newId s)))"
    using assms by (auto simp: docs_handleAdd list_ex_iff split: option.split)
next
  have "map (\<lambda>d. key (normalized d)) (docs (handleRename J i nm s))
          = map (\<lambda>d. key (normalized d)) (docs s)"
    by (simp add: docs_handleRename o_def if_distrib cong: if_cong)
  then show "distinct (map (\<lambda>d. key (normalized d)) (docs (handleRename J i nm s)))"
    using assms by simp
next
  show "distinct (map (\<lambda>d. key (normalized d)) (docs (handleRemove J i s)))"
    using assms by (simp add: docs_handleRemove distinct_map_filter)
qed

theorem key_uniqueness_preserved_witness:
  "distinct (map (\<lambda>d. key (normalized d)) (docs example_state))
   \<and> distinct (map (\<lambda>d. key (normalized d))
        (docs (handleAdd URL_new example_stringify ''doc-3''
                 (example_state\<lparr>inputUrl := ''https://github.com/octocat/hello/blob/dev/api.yaml''\<rparr>))))
   \<and> distinct (map (\<lambda>d. key (normalized d))
        (docs (handleRename example_stringify ''doc-1'' ''Hello'' example_state)))
   \<and> distinct (map (\<lambda>d. key (normalized d))
        (docs (handleRemove example_stringify ''doc-1'' example_state)))"
proof -
  have h: "distinct (map (\<lambda>d. key (normalized d)) (docs example_state))"
    by (simp add: example_docs example_doc_def other_doc_def)
  have h': "distinct (map (\<lambda>d. key (normalized d))
              (docs (example_state\<lparr>inputUrl := ''https://github.com/octocat/hello/blob/dev/api.yaml''\<rparr>)))"
    using h by simp
  show ?thesis
    using h key_uniqueness_preserved[OF h', of URL_new example_stringify "''doc-3''"]
      key_uniqueness_preserved[OF h, of URL_new example_stringify "''doc-3''" "''doc-1''" "''Hello''"]
    by blast
qed

text \<open>
  C5.  \<^verbatim>\<open>handleRename\<close> keeps the length and the order of the list, leaves every record with
  another id as it is, and changes at most the name of a record.  \<^verbatim>\<open>handleRemove\<close> keeps, in
  order and as often as before, exactly the records whose id is not the target.
\<close>

theorem rename_remove_frame:
  "length (docs (handleRename J i nm s)) = length (docs s)
   \<and> (\<forall>k < length (docs s).
         (doc_id (docs s ! k) \<noteq> i \<longrightarrow> docs (handleRename J i nm s) ! k = docs s ! k)
         \<and> (docs (handleRename J i nm s) ! k)\<lparr>name := name (docs s ! k)\<rparr> = docs s ! k)
   \<and> subseq (docs (handleRemove J i s)) (docs s)
   \<and> set (docs (handleRemove J i s)) = {d \<in> set (docs s). doc_id d \<noteq> i}
   \<and> (\<forall>d. doc_id d \<noteq> i \<longrightarrow> count_list (docs (handleRemove J i s)) d = count_list (docs s) d)"
proof (intro conjI allI impI)
  show "length (docs (handleRename J i nm s)) = length (docs s)"
    by (simp add: docs_handleRename)
next
  fix k assume "k < length (docs s)" "doc_id (docs s ! k) \<noteq> i"
  then show "docs (handleRename J i nm s) ! k = docs s ! k"
    by (simp add: docs_handleRename)
next
  fix k assume "k < length (docs s)"
  then show "(docs (handleRename J i nm s) ! k)\<lparr>name := name (docs s ! k)\<rparr> = docs s ! k"
    by (simp add: docs_handleRename)
next
  show "subseq (docs (handleRemove J i s)) (docs s)"
    by (simp add: docs_handleRemove)
next
  show "set (docs (handleRemove J i s)) = {d \<in> set (docs s). doc_id d \<noteq> i}"
    by (auto simp: docs_handleRemove)
next
  fix d :: doc_entry assume "doc_id d \<noteq> i"
  then show "count_list (docs (handleRemove J i s)) d = count_list (docs s) d"
    by (simp add: docs_handleRemove count_list_filter_keep)
qed

theorem rename_remove_frame_witness:
  "1 < length (docs example_state) \<and> doc_id (docs example_state ! 1) \<noteq> ''doc-1''
   \<and> docs (handleRename example_stringify ''doc-1'' ''Hello'' example_state) ! 1 = other_doc
   \<and> doc_id other_doc \<noteq> ''doc-1''
   \<and> count_list (docs (handleRemove example_stringify ''doc-1'' example_state)) other_doc = 1"
proof -
  have a: "1 < length (docs example_state)" "doc_id (docs example_state ! 1) \<noteq> ''doc-1''"
    "docs example_state ! 1 = other_doc" "doc_id other_doc \<noteq> ''doc-1''"
    "count_list (docs example_state) other_doc = 1"
    by (simp_all add: example_docs other_doc_def example_doc_def)
  show ?thesis
    using rename_remove_frame[of example_stringify "''doc-1''" "''Hello''" example_state] a
    by auto
qed

text \<open>
  C10.  Removing the selected doc selects the first record of the resulting list, or nothing
  when that list is empty; removing another doc leaves the selection as it is.
\<close>

theorem handleRemove_selection:
  "(selectedId s = Some i \<longrightarrow>
      selectedId (handleRemove J i s)
        = (case docs (handleRemove J i s) of [] \<Rightarrow> None | d # _ \<Rightarrow> Some (doc_id d)))
   \<and> (selectedId s \<noteq> Some i \<longrightarrow> selectedId (handleRemove J i s) = selectedId s)"
  by (simp add: handleRemove_def handleSetDocs_def Let_def)

theorem handleRemove_selection_witness:
  "selectedId example_state = Some ''doc-1''
   \<and> selectedId (handleRemove example_stringify ''doc-1'' example_state) = Some ''doc-2''
   \<and> selectedId example_state \<noteq> Some ''doc-2''
   \<and> selectedId (handleRemove example_stringify ''doc-2'' example_state) = Some ''doc-1''"
proof -
  have a: "selectedId example_state = Some ''doc-1''"
    by (simp add: example_state_def initial_state_def)
  have b: "docs (handleRemove example_stringify ''doc-1'' example_state) = [other_doc]"
    by (simp add: docs_handleRemove example_docs example_doc_def other_doc_def)
  have c: "doc_id other_doc = ''doc-2''"
    by (simp add: other_doc_def)
  show ?thesis
    using handleRemove_selection[of example_state "''doc-1''" example_stringify]
      handleRemove_selection[of example_state "''doc-2''" example_stringify] a b c
    by simp
qed

section \<open>The storage\<close>

text \<open>
  C9.  \<^verbatim>\<open>loadDocs\<close> and \<^verbatim>\<open>loadToken\<close> are total.  Given that \<^verbatim>\<open>JSON.parse\<close> throws on the empty
  text, \<^verbatim>\<open>loadDocs\<close> returns the parsed array when the stored text parses to an array and the
  empty list in every other case (no item, a text that does not parse, a value that is not an
  array, a storage that throws); \<^verbatim>\<open>loadToken\<close> returns the stored text, and the empty text when
  there is none or the storage throws.
\<close>

theorem loadDocs_loadToken_total:
  assumes "JSON_parse [] = None"
  shows "(\<forall>raw xs. getItem ls STORAGE_KEY = Inr (Some raw) \<and> JSON_parse raw = Some (JArray xs)
            \<longrightarrow> loadDocs JSON_parse ls = xs)
       \<and> ((\<forall>raw xs. \<not> (getItem ls STORAGE_KEY = Inr (Some raw) \<and> JSON_parse raw = Some (JArray xs)))
            \<longrightarrow> loadDocs JSON_parse ls = [])
       \<and> (\<forall>t. getItem ls STORAGE_KEY_TOKEN = Inr (Some t) \<longrightarrow> loadToken ls = t)
       \<and> ((\<forall>t. getItem ls STORAGE_KEY_TOKEN \<noteq> Inr (Some t)) \<longrightarrow> loadToken ls = [])"
  using assms
  by (auto simp: loadDocs_def loadToken_def split: sum.splits option.splits json.splits)

theorem loadDocs_loadToken_total_witness:
  "example_parse [] = None
   \<and> loadDocs example_parse \<lparr>items = [STORAGE_KEY \<mapsto> ''[null]''], broken = None\<rparr> = [JNull]
   \<and> loadDocs example_parse \<lparr>items = [STORAGE_KEY \<mapsto> ''{}''], broken = None\<rparr> = []
   \<and> loadToken \<lparr>items = [STORAGE_KEY_TOKEN \<mapsto> ''ghp_abc''], broken = None\<rparr> = ''ghp_abc''
   \<and> loadToken \<lparr>items = Map.empty, broken = Some (Rejected ''SecurityError'')\<rparr> = []"
proof -
  have e: "example_parse [] = None"
    by (simp add: example_parse_def)
  have g1: "getItem \<lparr>items = [STORAGE_KEY \<mapsto> ''[null]''], broken = None\<rparr> STORAGE_KEY = Inr (Some ''[null]'')"
    "example_parse ''[null]'' = Some (JArray [JNull])"
    by (simp_all add: getItem_def example_parse_def)
  have g2: "\<forall>raw xs. \<not> (getItem \<lparr>items = [STORAGE_KEY \<mapsto> ''{}''], broken = None\<rparr> STORAGE_KEY = Inr (Some raw)
              \<and> example_parse raw = Some (JArray xs))"
    by (simp add: getItem_def example_parse_def)
  have g3: "getItem \<lparr>items = [STORAGE_KEY_TOKEN \<mapsto> ''ghp_abc''], broken = None\<rparr> STORAGE_KEY_TOKEN = Inr (Some ''ghp_abc'')"
    by (simp add: getItem_def)
  have g4: "\<forall>t. getItem \<lparr>items = Map.empty, broken = Some (Rejected ''SecurityError'')\<rparr> STORAGE_KEY_TOKEN \<noteq> Inr (Some t)"
    by (simp add: getItem_def)
  show ?thesis
    using e g1 g2 g3 g4
      loadDocs_loadToken_total[of example_parse "\<lparr>items = [STORAGE_KEY \<mapsto> ''[null]''], broken = None\<rparr>", OF e]
      loadDocs_loadToken_total[of example_parse "\<lparr>items = [STORAGE_KEY \<mapsto> ''{}''], broken = None\<rparr>", OF e]
      loadDocs_loadToken_total[of example_parse "\<lparr>items = [STORAGE_KEY_TOKEN \<mapsto> ''ghp_abc''], broken = None\<rparr>", OF e]
      loadDocs_loadToken_total[of example_parse "\<lparr>items = Map.empty, broken = Some (Rejected ''SecurityError'')\<rparr>", OF e]
    by blast
qed

section \<open>Stale responses\<close>

text \<open>
  C7.  When the fetch started for the doc \<open>i\<close> settles while the ref holds another selection,
  \<^verbatim>\<open>loadDoc\<close> changes nothing: not the displayed YAML, not the error, not the loading flag.  When
  the ref still holds \<open>i\<close>, the result is displayed and the loading flag cleared.  After a render
  the ref is the current selection, so a response for a doc that is no longer selected changes
  nothing.
\<close>

theorem loadDoc_settle_stale:
  "(selectedIdRef s \<noteq> Some i \<longrightarrow> loadDoc_settle i r s = s)
   \<and> (selectedIdRef s = Some i \<longrightarrow>
        loadDoc_settle i r s =
          (case r of
             Inr t \<Rightarrow> s\<lparr>fetchedYaml := Some t, loading := False\<rparr>
           | Inl e \<Rightarrow> s\<lparr>error := Some (message e), fetchedYaml := None, loading := False\<rparr>))
   \<and> (selectedId s \<noteq> Some i \<longrightarrow> loadDoc_settle i r (render s) = render s)"
  by (simp add: loadDoc_settle_def render_def Let_def split: sum.split)

theorem loadDoc_settle_stale_witness:
  "selectedIdRef example_state \<noteq> Some ''doc-2''
   \<and> loadDoc_settle ''doc-2'' (Inr ''openapi: 3.0.0'') example_state = example_state
   \<and> selectedIdRef example_state = Some ''doc-1''
   \<and> loadDoc_settle ''doc-1'' (Inr ''openapi: 3.0.0'') (example_state\<lparr>loading := True\<rparr>)
       = example_state\<lparr>loading := False, fetchedYaml := Some ''openapi: 3.0.0''\<rparr>
   \<and> selectedId (example_state\<lparr>selectedId := Some ''doc-2''\<rparr>) \<noteq> Some ''doc-1''
   \<and> loadDoc_settle ''doc-1'' (Inl (Error ''File not found.''))
         (render (example_state\<lparr>selectedId := Some ''doc-2''\<rparr>))
       = render (example_state\<lparr>selectedId := Some ''doc-2''\<rparr>)"
proof -
  have a: "selectedIdRef example_state = Some ''doc-1''"
    by (simp add: example_state_def initial_state_def)
  show ?thesis
    using loadDoc_settle_stale[of example_state "''doc-2''" "Inr ''openapi: 3.0.0''"]
      loadDoc_settle_stale[of "example_state\<lparr>loading := True\<rparr>" "''doc-1''" "Inr ''openapi: 3.0.0''"]
      loadDoc_settle_stale[of "example_state\<lparr>selectedId := Some ''doc-2''\<rparr>" "''doc-1''"
        "Inl (Error ''File not found.'')"] a
    by simp
qed

section \<open>The requests of a fetch\<close>

lemma contents_not_git:
  "contents_request n tok \<noteq> commit_request n c tok'"
  "contents_request n tok \<noteq> tree_request n t tok'"
  "contents_request n tok \<noteq> blob_request n b tok'"
  by (simp_all add: contents_request_def commit_request_def tree_request_def blob_request_def
        buildContentsUrl_def GITHUB_API_BASE_def)

text \<open>The requests of one call differ pairwise, so that a function from requests to answers
  stands for any sequence of answers.\<close>

lemma git_requests_distinct:
  "commit_request n c tok \<noteq> tree_request n t tok'"
  "commit_request n c tok \<noteq> blob_request n b tok'"
  "tree_request n t tok \<noteq> blob_request n b tok'"
  by (simp_all add: commit_request_def tree_request_def blob_request_def GITHUB_API_BASE_def)

lemma blob_stage_requests:
  "fst (fetchBlobByCommit_blob fetch n tok b) = [blob_request n b tok]"
  by (simp add: fetchBlobByCommit_blob_def split: sum.split)

lemma tree_stage_requests:
  "fst (fetchBlobByCommit_tree fetch n tok t) = [tree_request n t tok]
   \<or> (\<exists>b. fst (fetchBlobByCommit_tree fetch n tok t) = [tree_request n t tok, blob_request n b tok])"
  by (auto simp: fetchBlobByCommit_tree_def blob_stage_requests split_beta split: sum.split option.split)

lemma commit_stage_requests:
  "fst (fetchBlobByCommit fetch n c tok) = [commit_request n c tok]
   \<or> (\<exists>t. fst (fetchBlobByCommit fetch n c tok) = [commit_request n c tok, tree_request n t tok])
   \<or> (\<exists>t b. fst (fetchBlobByCommit fetch n c tok)
                = [commit_request n c tok, tree_request n t tok, blob_request n b tok])"
proof -
  have *: "fst (fetchBlobByCommit fetch n c tok) = [commit_request n c tok]
     \<or> (\<exists>t. fst (fetchBlobByCommit fetch n c tok)
               = commit_request n c tok # fst (fetchBlobByCommit_tree fetch n tok t))"
    by (auto simp: fetchBlobByCommit_def split_beta split: sum.split option.split)
  then show ?thesis
    using tree_stage_requests[of fetch n tok] by metis
qed


lemma fallback_no_contents:
  "contents_request n tok \<notin> set (fst (fetchBlobByCommit fetch n c tok'))"
  using commit_stage_requests[of fetch n c tok'] contents_not_git[of n tok]
  by auto

lemma fetchYaml_requests_eq:
  "fst (fetchYamlFromGitHub fetch n tok) =
     contents_request n tok #
       (case fetch (contents_request n tok) of
          Inl e \<Rightarrow> []
        | Inr res \<Rightarrow>
            if status res = 404 \<and> isCommitSha (branch n)
            then fst (fetchBlobByCommit fetch n (branch n) tok)
            else [])"
  by (simp add: fetchYamlFromGitHub_def ok_def split_beta split: sum.split)

lemma contents_request_once:
  "count_list (fst (fetchYamlFromGitHub fetch n tok)) (contents_request n tok) = 1"
proof -
  have "count_list rest (contents_request n tok) = 0"
    if "contents_request n tok \<notin> set rest" for rest
    using that by (simp add: count_list_0_iff)
  then show ?thesis
    using fallback_no_contents[of n tok fetch "branch n" tok]
    by (simp add: fetchYaml_requests_eq split: sum.split)
qed

lemma tree_stage_ok:
  assumes "fetch (tree_request n t tok) = Inr tres" and "ok tres" and "res_json tres = Inr tree"
    and "\<not> truncated tree" and "blob_entry_sha tree (path n) = Some b"
  shows "fst (fetchBlobByCommit_tree fetch n tok t) = [tree_request n t tok, blob_request n b tok]"
  using assms
  by (simp add: fetchBlobByCommit_tree_def ok_def split_beta blob_stage_requests)

lemma tree_stage_fail:
  assumes "\<not> (\<exists>tres tree b. fetch (tree_request n t tok) = Inr tres \<and> ok tres
              \<and> res_json tres = Inr tree \<and> \<not> truncated tree
              \<and> blob_entry_sha tree (path n) = Some b)"
  shows "fst (fetchBlobByCommit_tree fetch n tok t) = [tree_request n t tok]"
  using assms
  by (auto simp: fetchBlobByCommit_tree_def split: sum.split option.split)

lemma commit_stage_ok:
  assumes "fetch (commit_request n c tok) = Inr cres" and "ok cres" and "res_json cres = Inr commit"
    and "tree_sha commit = Some t" and "t \<noteq> []"
  shows "fst (fetchBlobByCommit fetch n c tok)
           = commit_request n c tok # fst (fetchBlobByCommit_tree fetch n tok t)"
  using assms
  by (simp add: fetchBlobByCommit_def ok_def split_beta)

lemma commit_stage_fail:
  assumes "\<not> (\<exists>cres commit t. fetch (commit_request n c tok) = Inr cres \<and> ok cres
              \<and> res_json cres = Inr commit \<and> tree_sha commit = Some t \<and> t \<noteq> [])"
  shows "fst (fetchBlobByCommit fetch n c tok) = [commit_request n c tok]"
  using assms
  by (auto simp: fetchBlobByCommit_def split: sum.split option.split)

lemma fetchYaml_requests_fallback:
  assumes "(\<exists>res. fetch (contents_request n tok) = Inr res \<and> status res = 404)
             \<and> isCommitSha (branch n)"
  shows "fst (fetchYamlFromGitHub fetch n tok)
           = contents_request n tok # fst (fetchBlobByCommit fetch n (branch n) tok)"
  using assms by (auto simp: fetchYaml_requests_eq)

lemma fetchYaml_requests_plain:
  assumes "\<not> ((\<exists>res. fetch (contents_request n tok) = Inr res \<and> status res = 404)
             \<and> isCommitSha (branch n))"
  shows "fst (fetchYamlFromGitHub fetch n tok) = [contents_request n tok]"
  using assms by (auto simp: fetchYaml_requests_eq split: sum.split)

text \<open>
  C1.  \<^verbatim>\<open>fetchYamlFromGitHub\<close> first issues the Contents-API request, and issues it once.  When
  that request is not answered with status 404, or the ref is not a 40-digit hexadecimal string,
  it issues no other request.  When it is answered with 404 and the ref is such a string, the
  commit request follows; the tree request follows the commit request exactly when the commit is
  answered with a success status and a body that names a tree; the blob request follows the tree
  request exactly when the tree is answered with a success status and a body that is not
  truncated and lists the path as a blob.  So the requests are, in this order, Contents, commit,
  tree, blob, cut off after the first one that does not succeed.
\<close>

theorem fetchYaml_requests:
  "(\<not> ((\<exists>res. fetch (contents_request n tok) = Inr res \<and> status res = 404)
          \<and> isCommitSha (branch n))
      \<longrightarrow> fst (fetchYamlFromGitHub fetch n tok) = [contents_request n tok])
   \<and> ((\<exists>res. fetch (contents_request n tok) = Inr res \<and> status res = 404)
          \<and> isCommitSha (branch n)
      \<longrightarrow> (\<not> (\<exists>cres commit t. fetch (commit_request n (branch n) tok) = Inr cres \<and> ok cres
                  \<and> res_json cres = Inr commit \<and> tree_sha commit = Some t \<and> t \<noteq> [])
            \<longrightarrow> fst (fetchYamlFromGitHub fetch n tok)
                  = [contents_request n tok, commit_request n (branch n) tok])
        \<and> (\<forall>cres commit t.
              fetch (commit_request n (branch n) tok) = Inr cres \<and> ok cres
              \<and> res_json cres = Inr commit \<and> tree_sha commit = Some t \<and> t \<noteq> []
            \<longrightarrow> (\<not> (\<exists>tres tree b. fetch (tree_request n t tok) = Inr tres \<and> ok tres
                        \<and> res_json tres = Inr tree \<and> \<not> truncated tree
                        \<and> blob_entry_sha tree (path n) = Some b)
                  \<longrightarrow> fst (fetchYamlFromGitHub fetch n tok)
                        = [contents_request n tok, commit_request n (branch n) tok,
                           tree_request n t tok])
              \<and> (\<forall>tres tree b.
                    fetch (tree_request n t tok) = Inr tres \<and> ok tres
                    \<and> res_json tres = Inr tree \<and> \<not> truncated tree
                    \<and> blob_entry_sha tree (path n) = Some b
                  \<longrightarrow> fst (fetchYamlFromGitHub fetch n tok)
                        = [contents_request n tok, commit_request n (branch n) tok,
                           tree_request n t tok, blob_request n b tok])))
   \<and> count_list (fst (fetchYamlFromGitHub fetch n tok)) (contents_request n tok) = 1"
proof (intro conjI impI allI)
  assume "\<not> ((\<exists>res. fetch (contents_request n tok) = Inr res \<and> status res = 404)
          \<and> isCommitSha (branch n))"
  then show "fst (fetchYamlFromGitHub fetch n tok) = [contents_request n tok]"
    by (rule fetchYaml_requests_plain)
next
  assume c: "(\<exists>res. fetch (contents_request n tok) = Inr res \<and> status res = 404)
          \<and> isCommitSha (branch n)"
    and f: "\<not> (\<exists>cres commit t. fetch (commit_request n (branch n) tok) = Inr cres \<and> ok cres
                  \<and> res_json cres = Inr commit \<and> tree_sha commit = Some t \<and> t \<noteq> [])"
  have "fst (fetchBlobByCommit fetch n (branch n) tok) = [commit_request n (branch n) tok]"
    using f by (rule commit_stage_fail)
  then show "fst (fetchYamlFromGitHub fetch n tok)
                  = [contents_request n tok, commit_request n (branch n) tok]"
    by (simp only: fetchYaml_requests_fallback[of fetch n tok, OF c])
next
  fix cres commit t
  assume c: "(\<exists>res. fetch (contents_request n tok) = Inr res \<and> status res = 404)
          \<and> isCommitSha (branch n)"
    and k: "fetch (commit_request n (branch n) tok) = Inr cres \<and> ok cres
              \<and> res_json cres = Inr commit \<and> tree_sha commit = Some t \<and> t \<noteq> []"
    and f: "\<not> (\<exists>tres tree b. fetch (tree_request n t tok) = Inr tres \<and> ok tres
                        \<and> res_json tres = Inr tree \<and> \<not> truncated tree
                        \<and> blob_entry_sha tree (path n) = Some b)"
  have "fst (fetchBlobByCommit_tree fetch n tok t) = [tree_request n t tok]"
    using f by (rule tree_stage_fail)
  moreover from k have "fst (fetchBlobByCommit fetch n (branch n) tok)
           = commit_request n (branch n) tok # fst (fetchBlobByCommit_tree fetch n tok t)"
    by (intro commit_stage_ok) auto
  ultimately show "fst (fetchYamlFromGitHub fetch n tok)
                        = [contents_request n tok, commit_request n (branch n) tok,
                           tree_request n t tok]"
    by (simp only: fetchYaml_requests_fallback[of fetch n tok, OF c])
next
  fix cres commit t tres tree b
  assume c: "(\<exists>res. fetch (contents_request n tok) = Inr res \<and> status res = 404)
          \<and> isCommitSha (branch n)"
    and k: "fetch (commit_request n (branch n) tok) = Inr cres \<and> ok cres
              \<and> res_json cres = Inr commit \<and> tree_sha commit = Some t \<and> t \<noteq> []"
    and r: "fetch (tree_request n t tok) = Inr tres \<and> ok tres
                    \<and> res_json tres = Inr tree \<and> \<not> truncated tree
                    \<and> blob_entry_sha tree (path n) = Some b"
  from r have "fst (fetchBlobByCommit_tree fetch n tok t)
                 = [tree_request n t tok, blob_request n b tok]"
    by (intro tree_stage_ok) auto
  moreover from k have "fst (fetchBlobByCommit fetch n (branch n) tok)
           = commit_request n (branch n) tok # fst (fetchBlobByCommit_tree fetch n tok t)"
    by (intro commit_stage_ok) auto
  ultimately show "fst (fetchYamlFromGitHub fetch n tok)
                        = [contents_request n tok, commit_request n (branch n) tok,
                           tree_request n t tok, blob_request n b tok]"
    by (simp only: fetchYaml_requests_fallback[of fetch n tok, OF c])
next
  show "count_list (fst (fetchYamlFromGitHub fetch n tok)) (contents_request n tok) = 1"
    by (rule contents_request_once)
qed


theorem fetchYaml_requests_witness:
  "(\<exists>res. fallback_fetch (contents_request sha_normalized None) = Inr res \<and> status res = 404)
   \<and> isCommitSha (branch sha_normalized)
   \<and> (\<exists>cres commit. fallback_fetch (commit_request sha_normalized (branch sha_normalized) None)
          = Inr cres \<and> ok cres \<and> res_json cres = Inr commit \<and> tree_sha commit = Some ''7a1c'')
   \<and> (\<exists>tres tree. fallback_fetch (tree_request sha_normalized ''7a1c'' None) = Inr tres \<and> ok tres
          \<and> res_json tres = Inr tree \<and> \<not> truncated tree
          \<and> blob_entry_sha tree (path sha_normalized) = Some ''33cc'')
   \<and> fst (fetchYamlFromGitHub fallback_fetch sha_normalized None)
       = [contents_request sha_normalized None,
          commit_request sha_normalized (branch sha_normalized) None,
          tree_request sha_normalized ''7a1c'' None,
          blob_request sha_normalized ''33cc'' None]"
proof -
  have c: "(\<exists>res. fallback_fetch (contents_request sha_normalized None) = Inr res \<and> status res = 404)
             \<and> isCommitSha (branch sha_normalized)"
  proof
    show "\<exists>res. fallback_fetch (contents_request sha_normalized None) = Inr res \<and> status res = 404"
      by (simp add: fallback_fetch_def)
    show "isCommitSha (branch sha_normalized)"
      by code_simp
  qed
  have k: "\<exists>cres commit. fallback_fetch (commit_request sha_normalized (branch sha_normalized) None)
          = Inr cres \<and> ok cres \<and> res_json cres = Inr commit \<and> tree_sha commit = Some ''7a1c''"
    by (simp add: fallback_fetch_def contents_not_git[symmetric] ok_def empty_body_def)
  have r: "\<exists>tres tree. fallback_fetch (tree_request sha_normalized ''7a1c'' None) = Inr tres \<and> ok tres
          \<and> res_json tres = Inr tree \<and> \<not> truncated tree
          \<and> blob_entry_sha tree (path sha_normalized) = Some ''33cc''"
    by (simp add: fallback_fetch_def contents_not_git[symmetric] git_requests_distinct[symmetric]
          ok_def empty_body_def blob_entry_sha_def sha_normalized_def)
  from k obtain cres commit
    where k': "fallback_fetch (commit_request sha_normalized (branch sha_normalized) None) = Inr cres
                 \<and> ok cres \<and> res_json cres = Inr commit \<and> tree_sha commit = Some ''7a1c''
                 \<and> ''7a1c'' \<noteq> []"
    by auto
  from r obtain tres tree
    where r': "fallback_fetch (tree_request sha_normalized ''7a1c'' None) = Inr tres \<and> ok tres
          \<and> res_json tres = Inr tree \<and> \<not> truncated tree
          \<and> blob_entry_sha tree (path sha_normalized) = Some ''33cc''"
    by auto
  have "fst (fetchYamlFromGitHub fallback_fetch sha_normalized None)
       = [contents_request sha_normalized None,
          commit_request sha_normalized (branch sha_normalized) None,
          tree_request sha_normalized ''7a1c'' None,
          blob_request sha_normalized ''33cc'' None]"
    using fetchYaml_requests[of fallback_fetch sha_normalized None] c k' r' by blast
  with c k r show ?thesis by blast
qed

section \<open>The failures of a fetch\<close>

lemma described_fetch:
  "platform_errors_described fetch \<Longrightarrow> fetch req = Inl e \<Longrightarrow> message e \<noteq> []"
  unfolding platform_errors_described_def described_def
  by (drule spec[of _ req]) simp

lemma described_text:
  "platform_errors_described fetch \<Longrightarrow> fetch req = Inr res \<Longrightarrow> res_text res = Inl e
     \<Longrightarrow> message e \<noteq> []"
  unfolding platform_errors_described_def described_def
  by (drule spec[of _ req]) simp

lemma described_json:
  "platform_errors_described fetch \<Longrightarrow> fetch req = Inr res \<Longrightarrow> res_json res = Inl e
     \<Longrightarrow> message e \<noteq> []"
  unfolding platform_errors_described_def described_def
  by (drule spec[of _ req]) simp

lemma blob_stage_error:
  assumes "snd (fetchBlobByCommit_blob fetch n tok b) = Inl e"
  shows "fetch (blob_request n b tok) = Inl e
       \<or> (\<exists>res. fetch (blob_request n b tok) = Inr res \<and> res_text res = Inl e)
       \<or> (\<exists>m. e = Error m \<and> m \<noteq> [])"
proof (cases "fetch (blob_request n b tok)")
  case (Inl e')
  with assms show ?thesis
    by (auto simp: fetchBlobByCommit_blob_def)
next
  case (Inr blobRes)
  with assms show ?thesis
    by (auto simp: fetchBlobByCommit_blob_def split: if_splits)
qed

lemma blob_stage_message:
  assumes "platform_errors_described fetch"
    and "snd (fetchBlobByCommit_blob fetch n tok b) = Inl e"
  shows "message e \<noteq> []"
  using blob_stage_error[OF assms(2)] described_fetch[OF assms(1)] described_text[OF assms(1)]
  by (elim disjE exE conjE) auto

lemma tree_stage_error:
  assumes "snd (fetchBlobByCommit_tree fetch n tok t) = Inl e"
  shows "fetch (tree_request n t tok) = Inl e
       \<or> (\<exists>res. fetch (tree_request n t tok) = Inr res \<and> res_json res = Inl e)
       \<or> (\<exists>m. e = Error m \<and> m \<noteq> [])
       \<or> (\<exists>b. snd (fetchBlobByCommit_blob fetch n tok b) = Inl e)"
proof (cases "fetch (tree_request n t tok)")
  case (Inl e')
  with assms show ?thesis
    by (auto simp: fetchBlobByCommit_tree_def)
next
  case (Inr treeRes)
  show ?thesis
  proof (cases "res_json treeRes")
    case (Inl e')
    with Inr assms show ?thesis
      by (auto simp: fetchBlobByCommit_tree_def split: if_splits)
  next
    case json: (Inr tree)
    show ?thesis
    proof (cases "blob_entry_sha tree (path n)")
      case None
      with json Inr assms show ?thesis
        by (auto simp: fetchBlobByCommit_tree_def split: if_splits)
    next
      case (Some b)
      with json Inr assms have "(\<exists>m. e = Error m \<and> m \<noteq> [])
          \<or> snd (fetchBlobByCommit_blob fetch n tok b) = Inl e"
        by (auto simp: fetchBlobByCommit_tree_def split_beta split: if_splits)
      then show ?thesis by blast
    qed
  qed
qed

lemma tree_stage_message:
  assumes "platform_errors_described fetch"
    and "snd (fetchBlobByCommit_tree fetch n tok t) = Inl e"
  shows "message e \<noteq> []"
  using tree_stage_error[OF assms(2)] described_fetch[OF assms(1)] described_json[OF assms(1)]
    blob_stage_message[OF assms(1)]
  by (elim disjE exE conjE) auto

lemma commit_stage_error:
  assumes "snd (fetchBlobByCommit fetch n c tok) = Inl e"
  shows "fetch (commit_request n c tok) = Inl e
       \<or> (\<exists>res. fetch (commit_request n c tok) = Inr res \<and> res_json res = Inl e)
       \<or> (\<exists>m. e = Error m \<and> m \<noteq> [])
       \<or> (\<exists>t. snd (fetchBlobByCommit_tree fetch n tok t) = Inl e)"
proof (cases "fetch (commit_request n c tok)")
  case (Inl e')
  with assms show ?thesis
    by (auto simp: fetchBlobByCommit_def)
next
  case (Inr commitRes)
  show ?thesis
  proof (cases "res_json commitRes")
    case (Inl e')
    with Inr assms show ?thesis
      by (auto simp: fetchBlobByCommit_def quoted_def split: if_splits)
  next
    case json: (Inr commit)
    show ?thesis
    proof (cases "tree_sha commit")
      case None
      with json Inr assms show ?thesis
        by (auto simp: fetchBlobByCommit_def quoted_def split: if_splits)
    next
      case (Some t)
      with json Inr assms have "(\<exists>m. e = Error m \<and> m \<noteq> [])
          \<or> snd (fetchBlobByCommit_tree fetch n tok t) = Inl e"
        by (auto simp: fetchBlobByCommit_def quoted_def split_beta split: if_splits)
      then show ?thesis by blast
    qed
  qed
qed

lemma commit_stage_message:
  assumes "platform_errors_described fetch"
    and "snd (fetchBlobByCommit fetch n c tok) = Inl e"
  shows "message e \<noteq> []"
  using commit_stage_error[OF assms(2)] described_fetch[OF assms(1)] described_json[OF assms(1)]
    tree_stage_message[OF assms(1)]
  by (elim disjE exE conjE) auto

lemma fetchYaml_result_eq:
  assumes "fetch (contents_request n tok) = Inr res" and "\<not> ok res"
  shows "snd (fetchYamlFromGitHub fetch n tok) =
     (if status res = 404 \<and> isCommitSha (branch n)
      then snd (fetchBlobByCommit fetch n (branch n) tok)
      else if status res = 404 then Inl (Error (not_found_message n tok))
      else if status res = 403
      then (if mentions_rate_limit res
            then Inl (Error ''GitHub rate limit exceeded. Try again later or add a token.'')
            else Inl (Error (if bearer tok \<noteq> None
                             then ''Access denied (403). Ensure your token has the ''
                                    @ quoted ''repo'' @ '' scope.''
                             else ''Access denied. Add a GitHub token in Settings.'')))
      else if status res = 401
      then Inl (Error (if bearer tok \<noteq> None
                       then ''Invalid or expired GitHub token. Create a new token and update Settings.''
                       else ''Unauthorized. For private repos, add a GitHub token in Settings.''))
      else Inl (Error (''GitHub API error: '' @ string_of_nat (status res) @ '' '' @ statusText res)))"
  using assms by (simp add: fetchYamlFromGitHub_def split_beta)

lemma rate_limit_mentioned:
  assumes "res_json res = Inr data" and "body_message data = Some m"
    and "contains_ci ''rate limit'' m"
  shows "mentions_rate_limit res"
proof -
  have "m \<noteq> []"
    using assms(3) by auto
  with assms show ?thesis
    by (simp add: mentions_rate_limit_def)
qed

text \<open>
  C6.  Let the Contents API answer with a status outside 200 to 299, on a platform whose own
  rejections carry a non-empty message.  Then \<^verbatim>\<open>fetchYamlFromGitHub\<close> rejects with an error whose
  message is not empty, unless the status is 404, the ref is a 40-digit hexadecimal string and
  \<^verbatim>\<open>fetchBlobByCommit\<close> resolves, in which case it resolves with that content.  The Contents
  request occurs once among the requests issued.  A 403 answer whose body has a message that
  contains \<^verbatim>\<open>rate limit\<close>, in any case of letters, gives the rate-limit message.
\<close>

theorem fetchYaml_failure:
  assumes res: "fetch (contents_request n tok) = Inr res"
    and nok: "\<not> ok res"
    and plat: "platform_errors_described fetch"
  shows "(case snd (fetchYamlFromGitHub fetch n tok) of
            Inl e \<Rightarrow> message e \<noteq> []
          | Inr content \<Rightarrow>
              status res = 404 \<and> isCommitSha (branch n)
              \<and> snd (fetchBlobByCommit fetch n (branch n) tok) = Inr content)
       \<and> count_list (fst (fetchYamlFromGitHub fetch n tok)) (contents_request n tok) = 1
       \<and> (\<forall>data m. status res = 403 \<and> res_json res = Inr data \<and> body_message data = Some m
              \<and> contains_ci ''rate limit'' m
            \<longrightarrow> snd (fetchYamlFromGitHub fetch n tok)
                  = Inl (Error ''GitHub rate limit exceeded. Try again later or add a token.''))"
proof (intro conjI allI impI)
  show "case snd (fetchYamlFromGitHub fetch n tok) of
            Inl e \<Rightarrow> message e \<noteq> []
          | Inr content \<Rightarrow>
              status res = 404 \<and> isCommitSha (branch n)
              \<and> snd (fetchBlobByCommit fetch n (branch n) tok) = Inr content"
  proof (cases "status res = 404 \<and> isCommitSha (branch n)")
    case True
    then have "snd (fetchYamlFromGitHub fetch n tok) = snd (fetchBlobByCommit fetch n (branch n) tok)"
      by (simp add: fetchYaml_result_eq[of fetch n tok res, OF res nok])
    with True show ?thesis
      using commit_stage_message[of fetch n "branch n" tok, OF plat]
      by (auto split: sum.split)
  next
    case False
    then show ?thesis
      by (auto simp: fetchYaml_result_eq[of fetch n tok res, OF res nok] not_found_message_def)
  qed
next
  show "count_list (fst (fetchYamlFromGitHub fetch n tok)) (contents_request n tok) = 1"
    by (rule contents_request_once)
next
  fix data m
  assume a: "status res = 403 \<and> res_json res = Inr data \<and> body_message data = Some m
              \<and> contains_ci ''rate limit'' m"
  then have "mentions_rate_limit res"
    using rate_limit_mentioned by blast
  with a show "snd (fetchYamlFromGitHub fetch n tok)
                  = Inl (Error ''GitHub rate limit exceeded. Try again later or add a token.'')"
    by (simp add: fetchYaml_result_eq[of fetch n tok res, OF res nok])
qed

theorem fetchYaml_failure_witness:
  "rate_limited_fetch (contents_request (normalized example_doc) None) = Inr rate_limited_response
   \<and> \<not> ok rate_limited_response
   \<and> platform_errors_described rate_limited_fetch
   \<and> status rate_limited_response = 403
   \<and> contains_ci ''rate limit'' ''API rate limit exceeded for 203.0.113.7.''
   \<and> snd (fetchYamlFromGitHub rate_limited_fetch (normalized example_doc) None)
       = Inl (Error ''GitHub rate limit exceeded. Try again later or add a token.'')
   \<and> count_list (fst (fetchYamlFromGitHub rate_limited_fetch (normalized example_doc) None))
         (contents_request (normalized example_doc) None) = 1"
proof -
  have r: "rate_limited_fetch (contents_request (normalized example_doc) None)
             = Inr rate_limited_response"
    by (simp add: rate_limited_fetch_def contents_request_def)
  have nok: "\<not> ok rate_limited_response"
    by (simp add: ok_def rate_limited_response_def)
  have plat: "platform_errors_described rate_limited_fetch"
    by (auto simp: platform_errors_described_def described_def rate_limited_fetch_def
          rate_limited_response_def)
  have st: "status rate_limited_response = 403"
    and js: "res_json rate_limited_response
               = Inr \<lparr>body_message = Some ''API rate limit exceeded for 203.0.113.7.'',
                      tree_sha = None, truncated = False, tree_entries = None\<rparr>"
    by (simp_all add: rate_limited_response_def)
  have c: "contains_ci ''rate limit'' ''API rate limit exceeded for 203.0.113.7.''"
    by code_simp
  show ?thesis
    using fetchYaml_failure[of rate_limited_fetch "normalized example_doc" None
        rate_limited_response, OF r nok plat] r nok plat st js c
    by simp
qed

section \<open>Parsing a GitHub URL\<close>

lemma lower_ascii_neq:
  "lower_ascii (CHR ''g'') \<noteq> lower_ascii (CHR ''r'')"
  "lower_ascii (CHR ''r'') \<noteq> lower_ascii (CHR ''w'')"
  "lower_ascii (CHR ''r'') \<noteq> lower_ascii (CHR ''g'')"
  "lower_ascii (CHR ''g'') \<noteq> lower_ascii (CHR ''w'')"
  by (simp_all add: lower_ascii_def code_def)

lemma take_segment_append:
  "CHR ''/'' \<notin> set seg \<Longrightarrow>
   take_segment (seg @ CHR ''/'' # rest) = (if seg = [] then None else Some (seg, rest))"
  by (simp add: take_segment_def takeWhile_append dropWhile_append Let_def)

lemma take_segment_slash:
  "take_segment (CHR ''/'' # rest) = None"
  by (simp add: take_segment_def)

lemma rawMatch_raw:
  assumes "CHR ''/'' \<notin> set ow" "CHR ''/'' \<notin> set rp" "CHR ''/'' \<notin> set br"
  shows "rawMatch (''https://raw.githubusercontent.com/'' @ ow @ ''/'' @ rp @ ''/'' @ br @ ''/'' @ p)
           = (if ow \<noteq> [] \<and> rp \<noteq> [] \<and> br \<noteq> [] \<and> take_rest p \<noteq> None
              then Some (ow, rp, br, p) else None)"
  using assms
  by (auto simp: rawMatch_def match_opt_ci_def raw_groups_def take_segment_append take_segment_slash take_rest_def)

lemma rawMatch_blob:
  "rawMatch (''https://github.com/'' @ s) = None"
  by (simp add: rawMatch_def match_opt_ci_def lower_ascii_neq)

lemma blobMatch_blob:
  assumes "CHR ''/'' \<notin> set ow" "CHR ''/'' \<notin> set rp" "CHR ''/'' \<notin> set br"
  shows "blobMatch (''https://github.com/'' @ ow @ ''/'' @ rp @ ''/blob/'' @ br @ ''/'' @ p)
           = (if ow \<noteq> [] \<and> rp \<noteq> [] \<and> br \<noteq> [] \<and> take_rest p \<noteq> None
              then Some (ow, rp, br, p) else None)"
  using assms
  by (auto simp: blobMatch_def match_opt_ci_def blob_groups_def take_segment_append take_segment_slash take_rest_def
        lower_ascii_neq)

lemma blobMatch_raw:
  "blobMatch (''https://raw.githubusercontent.com/'' @ s) = None"
  by (simp add: blobMatch_def match_opt_ci_def lower_ascii_neq)

lemma parseGitHubUrl_string:
  "u \<noteq> [] \<Longrightarrow>
   parseGitHubUrl URL (JsStr u) =
     (case rawMatch (normalize_input URL u) of
        Some g \<Rightarrow> Some (make_normalized g)
      | None \<Rightarrow>
         (case blobMatch (normalize_input URL u) of
            Some g \<Rightarrow> Some (make_normalized g)
          | None \<Rightarrow> None))"
  by (simp add: parseGitHubUrl_def Let_def)

text \<open>
  C2, as amended.  Let owner, repo and branch contain no slash, let the path be non-empty, and let
  the input normalisation of \<^verbatim>\<open>parseGitHubUrl\<close> (trimming, then origin and pathname of the URL
  constructor) turn the blob form and the raw form of these segments into the blob form and the
  raw form of one and the same owner, repo, branch (each without a slash) and path.  Then
  \<^verbatim>\<open>parseGitHubUrl\<close> returns the same result for both forms.  When the normalised owner, repo and
  branch are non-empty and the normalised path is non-empty, has no line terminator and does not
  begin with a slash, that result is the tuple of these four and the slash-collapsed key.  When
  one of them is empty or the path has a line terminator, the result is \<^verbatim>\<open>null\<close>.
\<close>

theorem blob_raw_same_tuple:
  assumes "CHR ''/'' \<notin> set ow" and "CHR ''/'' \<notin> set rp" and "CHR ''/'' \<notin> set br" and "pa \<noteq> []"
    and nb: "normalize_input URL (blob_url ow rp br pa) = blob_url ow' rp' br' pa'"
    and nr: "normalize_input URL (raw_url ow rp br pa) = raw_url ow' rp' br' pa'"
    and s': "CHR ''/'' \<notin> set ow'" "CHR ''/'' \<notin> set rp'" "CHR ''/'' \<notin> set br'"
  shows "parseGitHubUrl URL (JsStr (blob_url ow rp br pa))
           = parseGitHubUrl URL (JsStr (raw_url ow rp br pa))
       \<and> (ow' \<noteq> [] \<and> rp' \<noteq> [] \<and> br' \<noteq> [] \<and> pa' \<noteq> []
            \<and> list_all (\<lambda>c. \<not> is_line_terminator c) pa' \<and> hd pa' \<noteq> CHR ''/''
          \<longrightarrow> parseGitHubUrl URL (JsStr (raw_url ow rp br pa))
                = Some \<lparr>owner = ow', repo = rp', branch = br', path = pa',
                         key = collapse_slashes (ow' @ ''/'' @ rp' @ ''/'' @ br' @ ''/'' @ pa')\<rparr>)
       \<and> (ow' = [] \<or> rp' = [] \<or> br' = [] \<or> pa' = []
            \<or> \<not> list_all (\<lambda>c. \<not> is_line_terminator c) pa'
          \<longrightarrow> parseGitHubUrl URL (JsStr (raw_url ow rp br pa)) = None)"
proof -
  have ne: "blob_url ow rp br pa \<noteq> []" "raw_url ow rp br pa \<noteq> []"
    by (simp_all add: blob_url_def raw_url_def)
  have nb': "normalize_input URL (blob_url ow rp br pa)
               = ''https://github.com/'' @ ow' @ ''/'' @ rp' @ ''/blob/'' @ br' @ ''/'' @ pa'"
    by (simp only: nb) (simp only: blob_url_def)
  have nr': "normalize_input URL (raw_url ow rp br pa)
               = ''https://raw.githubusercontent.com/'' @ ow' @ ''/'' @ rp' @ ''/'' @ br' @ ''/'' @ pa'"
    by (simp only: nr) (simp only: raw_url_def)
  have pb: "parseGitHubUrl URL (JsStr (blob_url ow rp br pa))
           = (if ow' \<noteq> [] \<and> rp' \<noteq> [] \<and> br' \<noteq> [] \<and> take_rest pa' \<noteq> None
              then Some (make_normalized (ow', rp', br', pa')) else None)"
    by (simp only: parseGitHubUrl_string[OF ne(1)] nb' rawMatch_blob blobMatch_blob[OF s'])
       simp
  have pr: "parseGitHubUrl URL (JsStr (raw_url ow rp br pa))
           = (if ow' \<noteq> [] \<and> rp' \<noteq> [] \<and> br' \<noteq> [] \<and> take_rest pa' \<noteq> None
              then Some (make_normalized (ow', rp', br', pa')) else None)"
    by (simp only: parseGitHubUrl_string[OF ne(2)] nr' rawMatch_raw[OF s'] blobMatch_raw)
       simp
  have st: "strip_leading_slash pa' = pa'" if "pa' \<noteq> []" "hd pa' \<noteq> CHR ''/''"
    using that by (cases pa') auto
  show ?thesis
    using pb pr st by (auto simp: make_normalized_def take_rest_def)
qed

theorem blob_raw_same_tuple_witness:
  "CHR ''/'' \<notin> set ''octocat'' \<and> CHR ''/'' \<notin> set ''hello'' \<and> CHR ''/'' \<notin> set ''main''
   \<and> ''docs/openapi.yaml?raw=true'' \<noteq> []
   \<and> normalize_input URL_new (blob_url ''octocat'' ''hello'' ''main'' ''docs/openapi.yaml?raw=true'')
       = blob_url ''octocat'' ''hello'' ''main'' ''docs/openapi.yaml''
   \<and> normalize_input URL_new (raw_url ''octocat'' ''hello'' ''main'' ''docs/openapi.yaml?raw=true'')
       = raw_url ''octocat'' ''hello'' ''main'' ''docs/openapi.yaml''
   \<and> parseGitHubUrl URL_new (JsStr (blob_url ''octocat'' ''hello'' ''main'' ''docs/openapi.yaml?raw=true''))
       = Some (normalized example_doc)
   \<and> parseGitHubUrl URL_new (JsStr (raw_url ''octocat'' ''hello'' ''main'' ''docs/openapi.yaml?raw=true''))
       = Some (normalized example_doc)"
proof -
  have s: "CHR ''/'' \<notin> set ''octocat''" "CHR ''/'' \<notin> set ''hello''" "CHR ''/'' \<notin> set ''main''"
    and p: "''docs/openapi.yaml?raw=true'' \<noteq> []"
    by simp_all
  have nb: "normalize_input URL_new (blob_url ''octocat'' ''hello'' ''main'' ''docs/openapi.yaml?raw=true'')
       = blob_url ''octocat'' ''hello'' ''main'' ''docs/openapi.yaml''"
    by code_simp
  have nr: "normalize_input URL_new (raw_url ''octocat'' ''hello'' ''main'' ''docs/openapi.yaml?raw=true'')
       = raw_url ''octocat'' ''hello'' ''main'' ''docs/openapi.yaml''"
    by code_simp
  have h: "''octocat'' \<noteq> [] \<and> ''hello'' \<noteq> [] \<and> ''main'' \<noteq> [] \<and> ''docs/openapi.yaml'' \<noteq> []
            \<and> list_all (\<lambda>c. \<not> is_line_terminator c) ''docs/openapi.yaml''
            \<and> hd ''docs/openapi.yaml'' \<noteq> CHR ''/''"
    by code_simp
  have v: "\<lparr>owner = ''octocat'', repo = ''hello'', branch = ''main'', path = ''docs/openapi.yaml'',
            key = collapse_slashes (''octocat'' @ ''/'' @ ''hello'' @ ''/'' @ ''main'' @ ''/''
                                      @ ''docs/openapi.yaml'')\<rparr> = normalized example_doc"
    by code_simp
  show ?thesis
    using blob_raw_same_tuple[of "''octocat''" "''hello''" "''main''" "''docs/openapi.yaml?raw=true''"
        URL_new "''octocat''" "''hello''" "''main''" "''docs/openapi.yaml''", OF s p nb nr s] s p nb nr h v
    by simp
qed

text \<open>
  C2, as stated, fails where the URL constructor resolves dot segments: the blob form loses its
  \<^verbatim>\<open>blob\<close> segment and is rejected, the raw form is read with another repo and branch.
\<close>

theorem blob_raw_differ_counterexample:
  "CHR ''/'' \<notin> set ''octocat'' \<and> CHR ''/'' \<notin> set ''hello'' \<and> CHR ''/'' \<notin> set ''main''
   \<and> ''../../x/y/z.yaml'' \<noteq> []
   \<and> parseGitHubUrl URL_new (JsStr (blob_url ''octocat'' ''hello'' ''main'' ''../../x/y/z.yaml'')) = None
   \<and> parseGitHubUrl URL_new (JsStr (raw_url ''octocat'' ''hello'' ''main'' ''../../x/y/z.yaml''))
       = Some \<lparr>owner = ''octocat'', repo = ''x'', branch = ''y'', path = ''z.yaml'',
               key = ''octocat/x/y/z.yaml''\<rparr>"
  by code_simp

lemma take_segment_shape:
  "take_segment s = Some (seg, r) \<Longrightarrow> seg \<noteq> [] \<and> CHR ''/'' \<notin> set seg"
  by (auto simp: take_segment_def Let_def split: if_splits list.splits dest: set_takeWhileD)

lemma collapse_slashes_double:
  "collapse_slashes (xs @ CHR ''/'' # CHR ''/'' # ys) = collapse_slashes (xs @ CHR ''/'' # ys)"
  by (induction xs rule: collapse_slashes.induct) auto

lemma collapse_slashes_strip:
  "collapse_slashes (xs @ CHR ''/'' # pa) = collapse_slashes (xs @ CHR ''/'' # strip_leading_slash pa)"
  by (cases pa) (auto simp: collapse_slashes_double)

lemma groups_shape:
  assumes "raw_groups s = Some (ow, rp, br, pa) \<or> blob_groups s = Some (ow, rp, br, pa)"
  shows "ow \<noteq> [] \<and> CHR ''/'' \<notin> set ow \<and> rp \<noteq> [] \<and> CHR ''/'' \<notin> set rp
       \<and> br \<noteq> [] \<and> CHR ''/'' \<notin> set br \<and> pa \<noteq> []"
  using assms
  by (auto simp: raw_groups_def blob_groups_def take_rest_def
        split: option.splits if_splits dest!: take_segment_shape)

lemma match_shape:
  assumes "rawMatch s = Some (ow, rp, br, pa) \<or> blobMatch s = Some (ow, rp, br, pa)"
  shows "ow \<noteq> [] \<and> CHR ''/'' \<notin> set ow \<and> rp \<noteq> [] \<and> CHR ''/'' \<notin> set rp
       \<and> br \<noteq> [] \<and> CHR ''/'' \<notin> set br \<and> pa \<noteq> []"
proof -
  from assms obtain s' where "raw_groups s' = Some (ow, rp, br, pa) \<or> blob_groups s' = Some (ow, rp, br, pa)"
    by (auto simp: rawMatch_def blobMatch_def split: option.splits)
  then show ?thesis by (rule groups_shape)
qed

text \<open>What does hold of every record that \<^verbatim>\<open>parseGitHubUrl\<close> returns: owner, repo and branch are
  non-empty and free of slashes, the path is a non-empty capture without one leading slash,
  and the key is the slash-collapsed join of the four fields.\<close>

lemma parseGitHubUrl_shape:
  assumes "parseGitHubUrl URL v = Some n"
  shows "owner n \<noteq> [] \<and> CHR ''/'' \<notin> set (owner n)
       \<and> repo n \<noteq> [] \<and> CHR ''/'' \<notin> set (repo n)
       \<and> branch n \<noteq> [] \<and> CHR ''/'' \<notin> set (branch n)
       \<and> (\<exists>pa. pa \<noteq> [] \<and> path n = strip_leading_slash pa)
       \<and> key n = collapse_slashes (owner n @ ''/'' @ repo n @ ''/'' @ branch n @ ''/'' @ path n)"
proof -
  from assms obtain u where u: "v = JsStr u" "u \<noteq> []"
    by (auto simp: parseGitHubUrl_def split: js_value.splits if_splits)
  obtain g where g: "rawMatch (normalize_input URL u) = Some g \<or> blobMatch (normalize_input URL u) = Some g"
      and n: "n = make_normalized g"
    using assms unfolding u(1) parseGitHubUrl_string[OF u(2)]
    by (auto split: option.splits)
  obtain ow rp br pa where gg: "g = (ow, rp, br, pa)"
    by (cases g) auto
  note m = g[unfolded gg]
  have k: "collapse_slashes ((ow @ ''/'' @ rp @ ''/'' @ br) @ CHR ''/'' # pa)
         = collapse_slashes ((ow @ ''/'' @ rp @ ''/'' @ br) @ CHR ''/'' # strip_leading_slash pa)"
    by (rule collapse_slashes_strip)
  show ?thesis
    using match_shape[OF m] k by (auto simp: n gg make_normalized_def)
qed

text \<open>
  C8.  The path of a returned record can be empty and can begin with a slash: only one leading
  slash of the captured path is removed, while the key collapses every run of slashes.
\<close>

theorem parseGitHubUrl_path_slip:
  "parseGitHubUrl URL_new (JsStr ''https://raw.githubusercontent.com/o/r/b//'')
     = Some \<lparr>owner = ''o'', repo = ''r'', branch = ''b'', path = [], key = ''o/r/b/''\<rparr>
   \<and> parseGitHubUrl URL_new (JsStr ''https://github.com/o/r/blob/b///x.yaml'')
     = Some \<lparr>owner = ''o'', repo = ''r'', branch = ''b'', path = ''/x.yaml'', key = ''o/r/b/x.yaml''\<rparr>"
  by code_simp

end
